theory Spec2Isabelle
  imports Main "HOL-Library.List_Lexorder" "HOL-Library.Char_ord" "HOL-Library.Multiset"
begin

section \<open>JavaScript strings and objects\<close>

text \<open>
  Strings are character lists. \<open>split_on\<close> is \<^verbatim>\<open>String.prototype.split\<close> with a
  one-character separator (the result always has at least one element), \<open>join_with\<close>
  is \<^verbatim>\<open>Array.prototype.join\<close>.
\<close>

fun split_on :: "char \<Rightarrow> string \<Rightarrow> string list" where
  "split_on c [] = [[]]"
| "split_on c (x # xs) =
     (if x = c then [] # split_on c xs
      else (case split_on c xs of
              [] \<Rightarrow> [[x]]
            | w # ws \<Rightarrow> (x # w) # ws))"

fun join_with :: "string \<Rightarrow> string list \<Rightarrow> string" where
  "join_with sep [] = []"
| "join_with sep [x] = x"
| "join_with sep (x # y # zs) = x @ sep @ join_with sep (y # zs)"

text \<open>
  A plain JavaScript object is the list of its own properties in insertion order, with
  pairwise different keys. Enumeration (\<^verbatim>\<open>Object.entries\<close>, \<^verbatim>\<open>Object.keys\<close>,
  \<^verbatim>\<open>Object.values\<close>) lists the keys that are array indices (canonical decimal numerals
  below \<open>2^32 - 1\<close>) first, in ascending numeric order, and then the other keys in
  insertion order. The keys used below are post ids, comma-joined id lists, language
  codes and field names; property names inherited from \<^verbatim>\<open>Object.prototype\<close> are not
  part of this model.
\<close>

type_synonym 'v object = "(string \<times> 'v) list"

definition isDigit :: "char \<Rightarrow> bool" where
  "isDigit c = (48 \<le> (of_char c :: nat) \<and> (of_char c :: nat) \<le> 57)"

definition decimalValue :: "string \<Rightarrow> nat" where
  "decimalValue s = foldl (\<lambda>n c. 10 * n + ((of_char c :: nat) - 48)) 0 s"

definition isArrayIndex :: "string \<Rightarrow> bool" where
  "isArrayIndex s =
     (s \<noteq> [] \<and> list_all isDigit s \<and> (s = ''0'' \<or> hd s \<noteq> CHR ''0'')
      \<and> decimalValue s < 4294967295)"

definition Object_entries :: "'v object \<Rightarrow> (string \<times> 'v) list" where
  "Object_entries obj =
     sort_key (\<lambda>kv. decimalValue (fst kv)) (filter (\<lambda>kv. isArrayIndex (fst kv)) obj)
     @ filter (\<lambda>kv. \<not> isArrayIndex (fst kv)) obj"

definition Object_keys :: "'v object \<Rightarrow> string list" where
  "Object_keys obj = map fst (Object_entries obj)"

definition Object_values :: "'v object \<Rightarrow> 'v list" where
  "Object_values obj = map snd (Object_entries obj)"

definition getProperty :: "'v object \<Rightarrow> string \<Rightarrow> 'v option" where
  "getProperty obj k = map_of obj k"

definition setProperty :: "'v object \<Rightarrow> string \<Rightarrow> 'v \<Rightarrow> 'v object" where
  "setProperty obj k v =
     (if k \<in> fst ` set obj then map (\<lambda>kv. if fst kv = k then (k, v) else kv) obj
      else obj @ [(k, v)])"

text \<open>Exceptions are values; each carries the message that the executor logs.\<close>

datatype error = TypeError (message: string) | Error (message: string)

section \<open>Node's path module (POSIX flavour)\<close>

text \<open>
  \<^verbatim>\<open>path.join\<close> concatenates its non-empty arguments with a slash and normalises the
  result: empty and \<^verbatim>\<open>.\<close> segments disappear and a \<^verbatim>\<open>..\<close> segment removes the segment
  before it. \<^verbatim>\<open>path.dirname\<close> cuts the path at the last slash that is followed by a
  name, ignoring trailing slashes.
\<close>

fun normalizeSegments :: "bool \<Rightarrow> string list \<Rightarrow> string list \<Rightarrow> string list" where
  "normalizeSegments allowAboveRoot stack [] = rev stack"
| "normalizeSegments allowAboveRoot stack (seg # segs) =
     (if seg = [] \<or> seg = ''.'' then normalizeSegments allowAboveRoot stack segs
      else if seg = ''..'' then
        (case stack of
           seg' # below \<Rightarrow>
             if seg' \<noteq> ''..'' then normalizeSegments allowAboveRoot below segs
             else if allowAboveRoot then normalizeSegments allowAboveRoot (seg # stack) segs
             else normalizeSegments allowAboveRoot stack segs
         | [] \<Rightarrow>
             if allowAboveRoot then normalizeSegments allowAboveRoot (seg # stack) segs
             else normalizeSegments allowAboveRoot stack segs)
      else normalizeSegments allowAboveRoot (seg # stack) segs)"

definition normalizeString :: "string \<Rightarrow> bool \<Rightarrow> string" where
  "normalizeString p allowAboveRoot =
     join_with ''/'' (normalizeSegments allowAboveRoot [] (split_on CHR ''/'' p))"

definition path_normalize :: "string \<Rightarrow> string" where
  "path_normalize p =
     (if p = [] then ''.''
      else
        let isAbsolute = (hd p = CHR ''/'');
            trailingSeparator = (last p = CHR ''/'');
            q = normalizeString p (\<not> isAbsolute)
        in if q = [] then (if isAbsolute then ''/'' else if trailingSeparator then ''./'' else ''.'')
           else (if isAbsolute then ''/'' else []) @ q @ (if trailingSeparator then ''/'' else []))"

definition path_join :: "string list \<Rightarrow> string" where
  "path_join args =
     (let parts = filter (\<lambda>a. a \<noteq> []) args
      in if parts = [] then ''.'' else path_normalize (join_with ''/'' parts))"

definition path_dirname :: "string \<Rightarrow> string" where
  "path_dirname p =
     (if p = [] then ''.''
      else
        let hasRoot = (hd p = CHR ''/'');
            afterName = dropWhile (\<lambda>c. c \<noteq> CHR ''/'')
                          (dropWhile (\<lambda>c. c = CHR ''/'') (rev (tl p)));
            cut = length afterName
        in if afterName = [] then (if hasRoot then ''/'' else ''.'')
           else if hasRoot \<and> cut = 1 then ''//''
           else take cut p)"

text \<open>
  The file system is the set of paths at which something exists; \<^verbatim>\<open>fs.existsSync\<close>
  is membership.
\<close>

type_synonym fs = "string set"

definition existsSync :: "fs \<Rightarrow> string \<Rightarrow> bool" where
  "existsSync files p = (p \<in> files)"

section \<open>Configuration, posts and the shared module\<close>

text \<open>
  \<open>config\<close> holds the entries of \<^verbatim>\<open>shared.config\<close> that the writer and the parser read
  (\<open>outputDir\<close> is \<^verbatim>\<open>config.output\<close>). A value that may be \<^verbatim>\<open>undefined\<close> or \<^verbatim>\<open>null\<close>
  is an option.
\<close>

record config =
  polylang :: bool
  postFolders :: bool
  outputDir :: string
  defaultLanguage :: "string option"
  writeDelay :: int
  requestDelay :: int
  dateFormat :: string
  includeTime :: bool
  quoteDate :: bool

text \<open>
  A frontmatter value, by the run-time type tests of the Markdown loader. A luxon
  \<^verbatim>\<open>DateTime\<close> is given by the three renderings the loader asks for. Array items and
  the values of a nested object are kept as the text that a template literal makes of
  them. \<open>VOther\<close> stands for any remaining value (a non-integer number, for instance).
\<close>

datatype DateTime = DateTime (toFormat: "string \<Rightarrow> string") (toISO: string) (toISODate: string)

datatype fm_value =
    VArray "string list"
  | VInteger int
  | VDateTime DateTime
  | VBoolean bool
  | VObject "string object"
  | VString string
  | VNull
  | VUndefined
  | VOther

text \<open>
  The post object of \<^verbatim>\<open>buildPost\<close>, with the \<^verbatim>\<open>polylang\<close> container that step 7 of
  \<^verbatim>\<open>parseFilePromise\<close> adds to every post. \<open>post.language\<close> is the post's own top-level
  property \<^verbatim>\<open>language\<close>: \<^verbatim>\<open>buildPost\<close> creates no such property and nothing assigns
  it later, so it is \<open>None\<close> (\<^verbatim>\<open>undefined\<close>) on every post the parser returns.
\<close>

record polylang_info =
  language :: "string option"
  groupSlug :: "string option"
  translationMap :: "string object option"

record post =
  post_id :: string
  post_type :: string
  slug :: string
  language :: "string option"
  polylang :: polylang_info
  frontmatter :: "fm_value object"
  metaContent :: "string object"
  content :: string
  imageUrls :: "string list"
  coverImageId :: "string option"

text \<open>
  The module \<^verbatim>\<open>shared.js\<close> is not among the sources. The writer reads its configuration
  and calls two of its functions, which are fields of the record \<open>shared\<close> here.
\<close>

record shared =
  config :: config
  buildPostPath :: "post \<Rightarrow> string"
  getFilenameFromUrl :: "string \<Rightarrow> string"

text \<open>
  Modelled from the spec: \<^verbatim>\<open>shared.buildPostPath\<close> is missing from the sources. The
  path resolver's table gives \<^verbatim>\<open>{output}/{slug}/index.md\<close> for a single post with
  per-post folders and \<^verbatim>\<open>{output}/{slug}.md\<close> without.
\<close>

definition spec_buildPostPath :: "config \<Rightarrow> post \<Rightarrow> string" where
  "spec_buildPostPath cfg p =
     (if postFolders cfg then outputDir cfg @ ''/'' @ slug p @ ''/index.md''
      else outputDir cfg @ ''/'' @ slug p @ ''.md'')"

text \<open>
  Modelled from the spec: \<^verbatim>\<open>shared.getFilenameFromUrl\<close> is missing from the sources. The
  image filename is the final path segment of the URL.
\<close>

definition spec_getFilenameFromUrl :: "string \<Rightarrow> string" where
  "spec_getFilenameFromUrl url = last (split_on CHR ''/'' url)"

definition spec_shared :: "config \<Rightarrow> shared" where
  "spec_shared cfg =
     \<lparr>config = cfg, buildPostPath = spec_buildPostPath cfg,
      getFilenameFromUrl = spec_getFilenameFromUrl\<rparr>"

section \<open>The parser: translation metadata and grouping\<close>

text \<open>
  Step 6 of \<^verbatim>\<open>parseFilePromise\<close>. \<open>unserialize\<close> is the function of the package
  php-serialize, a parameter here: \<open>Inl\<close> when it (or \<^verbatim>\<open>Object.entries\<close> of its result)
  throws, otherwise the parsed object. \<open>toString\<close> is JavaScript's \<^verbatim>\<open>String\<close> on the
  parsed ids. A term that cannot be parsed adds a warning and no mapping.
\<close>

record wp_term =
  term_taxonomy :: string
  term_slug :: string
  term_description :: string

record term_state =
  termMappings :: "string object object"
  warnings :: "string list"

definition Object_fromEntries :: "(string \<times> 'v) list \<Rightarrow> 'v object" where
  "Object_fromEntries es = foldl (\<lambda>obj kv. setProperty obj (fst kv) (snd kv)) [] es"

definition parseTerm ::
  "(string \<Rightarrow> error + 'v object) \<Rightarrow> ('v \<Rightarrow> string) \<Rightarrow> term_state \<Rightarrow> wp_term \<Rightarrow> term_state" where
  "parseTerm unserialize toString st term =
     (if term_taxonomy term \<noteq> ''post_translations'' then st
      else
        (case unserialize (term_description term) of
           Inr parsed \<Rightarrow>
             st\<lparr>termMappings :=
                  setProperty (termMappings st) (term_slug term)
                    (Object_fromEntries
                       (map (\<lambda>e. (fst e, toString (snd e))) (Object_entries parsed)))\<rparr>
         | Inl err \<Rightarrow>
             st\<lparr>warnings :=
                  warnings st @ [''Could not parse term_description for '' @ term_slug term]\<rparr>))"

definition parseTerms ::
  "(string \<Rightarrow> error + 'v object) \<Rightarrow> ('v \<Rightarrow> string) \<Rightarrow> wp_term list \<Rightarrow> term_state" where
  "parseTerms unserialize toString termNodes =
     foldl (parseTerm unserialize toString) \<lparr>termMappings = [], warnings = []\<rparr> termNodes"

text \<open>
  Step 7, the body of the loop for the item of one post: the categories of the item are
  pairs of the attributes \<^verbatim>\<open>domain\<close> and \<^verbatim>\<open>nicename\<close>; the translation map is attached
  when the group slug is set and has a mapping.
\<close>

definition readCategory :: "polylang_info \<Rightarrow> string \<times> string \<Rightarrow> polylang_info" where
  "readCategory pl cat =
     (let pl1 = (if fst cat = ''language''
                 then pl\<lparr>polylang_info.language := Some (snd cat)\<rparr> else pl)
      in if fst cat = ''post_translations'' then pl1\<lparr>groupSlug := Some (snd cat)\<rparr> else pl1)"

definition attachPolylang :: "string object object \<Rightarrow> (string \<times> string) list \<Rightarrow> post \<Rightarrow> post" where
  "attachPolylang mappings cats p =
     (let pl = foldl readCategory
                 \<lparr>polylang_info.language = None, groupSlug = None, translationMap = None\<rparr> cats
      in p\<lparr>polylang :=
             (case groupSlug pl of
                None \<Rightarrow> pl
              | Some gs \<Rightarrow>
                  if gs = [] then pl
                  else (case getProperty mappings gs of
                          None \<Rightarrow> pl
                        | Some tm \<Rightarrow> pl\<lparr>translationMap := Some tm\<rparr>))\<rparr>)"

text \<open>
  \<^verbatim>\<open>buildTranslationGroups\<close>: the key of a post is the sorted, comma-joined list of the
  ids in its translation map when it has a non-empty one, and its own id otherwise.
  The default \<^verbatim>\<open>sort\<close> compares strings by code units, which is the lexicographic
  order on character lists.
\<close>

definition groupKey :: "post \<Rightarrow> string" where
  "groupKey p =
     (case translationMap (polylang p) of
        None \<Rightarrow> post_id p
      | Some tm \<Rightarrow>
          if length (Object_keys tm) > 0 then join_with '','' (sort (Object_values tm))
          else post_id p)"

definition pushToGroup :: "post list object \<Rightarrow> string \<Rightarrow> post \<Rightarrow> post list object" where
  "pushToGroup groups key p =
     (case getProperty groups key of
        None \<Rightarrow> setProperty groups key [p]
      | Some members \<Rightarrow> setProperty groups key (members @ [p]))"

definition buildTranslationGroups :: "post list \<Rightarrow> post list object" where
  "buildTranslationGroups allPosts =
     foldl (\<lambda>groups p. pushToGroup groups (groupKey p) p) [] allPosts"

text \<open>
  \<^verbatim>\<open>chooseBaseSlug\<close> compares the top-level property \<^verbatim>\<open>language\<close> of each member with
  the default language code and falls back to the first member; on an empty group the
  fallback reads a property of \<^verbatim>\<open>undefined\<close> and throws.
\<close>

definition chooseBaseSlug :: "post list \<Rightarrow> string option \<Rightarrow> error + string" where
  "chooseBaseSlug postsInGroup defaultLangCode =
     (case find (\<lambda>p. post.language p = defaultLangCode) postsInGroup of
        Some candidate \<Rightarrow> Inr (slug candidate)
      | None \<Rightarrow>
          (case postsInGroup of
             [] \<Rightarrow> Inl (TypeError ''Cannot read properties of undefined (reading 'slug')'')
           | p0 # rest \<Rightarrow> Inr (slug p0)))"

text \<open>
  The group map of \<^verbatim>\<open>writeFilesPromise\<close>: translation groups in Polylang mode, otherwise
  one assignment \<^verbatim>\<open>groupMap[String(post.id)] = [post]\<close> per post.
\<close>

definition buildGroupMap :: "shared \<Rightarrow> post list \<Rightarrow> post list object" where
  "buildGroupMap sh posts =
     (if config.polylang (config sh) then buildTranslationGroups posts
      else foldl (\<lambda>groupMap p. setProperty groupMap (post_id p) [p]) [] posts)"

section \<open>The writer: planning payloads\<close>

text \<open>
  A payload as the planning loops build it (the Markdown loop gives it no \<^verbatim>\<open>name\<close>).
  The three local variables of a planning loop form the record \<open>plan\<close>. \<open>planItem\<close>
  is the test that ends both loops: an existing destination is counted, any other
  destination gets a payload with the current delay.
\<close>

record 'a payload =
  item :: 'a
  type :: string
  name :: "string option"
  destinationPath :: string
  delay :: int

record 'a plan =
  existingCount :: nat
  delay :: int
  payloads :: "'a payload list"

definition planItem ::
  "fs \<Rightarrow> int \<Rightarrow> 'a plan \<Rightarrow> 'a \<Rightarrow> string \<Rightarrow> string option \<Rightarrow> string \<Rightarrow> 'a plan" where
  "planItem files step st it ty nm dest =
     (if existsSync files dest then st\<lparr>existingCount := existingCount st + 1\<rparr>
      else st\<lparr>payloads :=
                payloads st @
                  [\<lparr>item = it, type = ty, name = nm, destinationPath = dest,
                    payload.delay = plan.delay st\<rparr>],
              plan.delay := plan.delay st + step\<rparr>)"

fun foldE :: "('s \<Rightarrow> 'x \<Rightarrow> error + 's) \<Rightarrow> 's \<Rightarrow> 'x list \<Rightarrow> error + 's" where
  "foldE f s [] = Inr s"
| "foldE f s (x # xs) = (case f s x of Inl e \<Rightarrow> Inl e | Inr s' \<Rightarrow> foldE f s' xs)"

text \<open>
  \<^verbatim>\<open>writeMarkdownFilesPromise\<close>, the loop over the groups. \<open>translationLanguage\<close> is
  \<^verbatim>\<open>post.polylang.language || 'und'\<close>; the group folder is read only when per-post
  folders are on, where it is the directory of the base path.
\<close>

definition translationLanguage :: "post \<Rightarrow> string" where
  "translationLanguage p =
     (case polylang_info.language (polylang p) of
        None \<Rightarrow> ''und''
      | Some l \<Rightarrow> if l = [] then ''und'' else l)"

definition translationDestination :: "shared \<Rightarrow> string \<Rightarrow> string \<Rightarrow> post \<Rightarrow> string" where
  "translationDestination sh basePath baseSlug p =
     (let lang = translationLanguage p
      in if postFolders (config sh)
         then path_join [path_dirname basePath, ''index.'' @ lang @ ''.md'']
         else buildPostPath sh (p\<lparr>slug := baseSlug @ ''.'' @ lang\<rparr>))"

definition planMarkdownGroup :: "shared \<Rightarrow> fs \<Rightarrow> post plan \<Rightarrow> post list \<Rightarrow> error + post plan" where
  "planMarkdownGroup sh files st postsInGroup =
     (if config.polylang (config sh) \<and> length postsInGroup > 1 then
        (case chooseBaseSlug postsInGroup (defaultLanguage (config sh)) of
           Inl e \<Rightarrow> Inl e
         | Inr baseSlug \<Rightarrow>
             let fakeBasePost = (hd postsInGroup)\<lparr>slug := baseSlug\<rparr>;
                 basePath = buildPostPath sh fakeBasePost
             in Inr (foldl (\<lambda>st p. planItem files (writeDelay (config sh)) st p (post_type p) None
                                     (translationDestination sh basePath baseSlug p))
                       st postsInGroup))
      else
        Inr (foldl (\<lambda>st p. planItem files (writeDelay (config sh)) st p (post_type p) None
                             (buildPostPath sh p))
               st postsInGroup))"

definition planMarkdownFiles :: "shared \<Rightarrow> fs \<Rightarrow> post list object \<Rightarrow> error + post plan" where
  "planMarkdownFiles sh files groupMap =
     foldE (\<lambda>st entry. planMarkdownGroup sh files st (snd entry))
       \<lparr>existingCount = 0, plan.delay = 0, payloads = []\<rparr> (Object_entries groupMap)"

text \<open>
  \<^verbatim>\<open>writeImageFilesPromise\<close>: the images of a translation group go to one folder under
  the base slug, the images of any other post next to that post's path.
\<close>

definition planImages :: "shared \<Rightarrow> fs \<Rightarrow> string \<Rightarrow> string plan \<Rightarrow> post \<Rightarrow> string plan" where
  "planImages sh files dir st p =
     foldl (\<lambda>st imageUrl.
              let filename = getFilenameFromUrl sh imageUrl;
                  dest = path_join [dir, filename]
              in planItem files (requestDelay (config sh)) st imageUrl ''image'' (Some filename) dest)
       st (imageUrls p)"

definition planImageGroup :: "shared \<Rightarrow> fs \<Rightarrow> string plan \<Rightarrow> post list \<Rightarrow> error + string plan" where
  "planImageGroup sh files st postsInGroup =
     (if config.polylang (config sh) \<and> length postsInGroup > 1 then
        (case chooseBaseSlug postsInGroup (defaultLanguage (config sh)) of
           Inl e \<Rightarrow> Inl e
         | Inr baseSlug \<Rightarrow>
             let groupFolder = (if postFolders (config sh)
                                then path_join [outputDir (config sh), baseSlug]
                                else outputDir (config sh));
                 imagesDir = path_join [groupFolder, ''images'']
             in Inr (foldl (planImages sh files imagesDir) st postsInGroup))
      else
        Inr (foldl (\<lambda>st p. let postPath = buildPostPath sh p;
                                dir = path_join [path_dirname postPath, ''images'']
                            in planImages sh files dir st p)
               st postsInGroup))"

definition planImageFiles :: "shared \<Rightarrow> fs \<Rightarrow> post list object \<Rightarrow> error + string plan" where
  "planImageFiles sh files groupMap =
     foldE (\<lambda>st entry. planImageGroup sh files st (snd entry))
       \<lparr>existingCount = 0, plan.delay = 0, payloads = []\<rparr> (Object_entries groupMap)"

section \<open>The writer: executing payloads\<close>

text \<open>
  \<^verbatim>\<open>processPayloadsPromise\<close>. The loader and the two file operations of \<^verbatim>\<open>writeFile\<close>
  are given by their outcomes. Every payload has a promise of its own, which is resolved
  after the write or rejected from the \<^verbatim>\<open>catch\<close> block that logs the message;
  \<^verbatim>\<open>Promise.allSettled\<close> gives one result for each promise, in the order of the
  payloads whatever the order of completion, and the rejected ones are counted. The
  thrown values are error objects, as those of the two loaders are.
\<close>

record 'd io =
  mkdir :: "string \<Rightarrow> error option"
  fsWriteFile :: "string \<Rightarrow> 'd \<Rightarrow> error option"

definition writeFile :: "'d io \<Rightarrow> string \<Rightarrow> 'd \<Rightarrow> error option" where
  "writeFile env dest data =
     (case mkdir env (path_dirname dest) of
        Some e \<Rightarrow> Some e
      | None \<Rightarrow> fsWriteFile env dest data)"

datatype status = fulfilled | rejected

record settled =
  status :: status
  errorMessage :: "string option"

definition settle :: "('a \<Rightarrow> error + 'd) \<Rightarrow> 'd io \<Rightarrow> 'a payload \<Rightarrow> settled" where
  "settle loadFunc env pl =
     (case loadFunc (item pl) of
        Inl ex \<Rightarrow> \<lparr>status = rejected, errorMessage = Some (message ex)\<rparr>
      | Inr data \<Rightarrow>
          (case writeFile env (destinationPath pl) data of
             Some ex \<Rightarrow> \<lparr>status = rejected, errorMessage = Some (message ex)\<rparr>
           | None \<Rightarrow> \<lparr>status = fulfilled, errorMessage = None\<rparr>))"

fun showNat :: "nat \<Rightarrow> string" where
  "showNat n =
     (if n < 10 then [''0123456789'' ! n]
      else showNat (n div 10) @ [''0123456789'' ! (n mod 10)])"

record summary =
  results :: "settled list"
  failedCount :: nat
  doneMessage :: string

definition processPayloadsPromise ::
  "'a payload list \<Rightarrow> ('a \<Rightarrow> error + 'd) \<Rightarrow> 'd io \<Rightarrow> summary" where
  "processPayloadsPromise pls loadFunc env =
     (let results = map (settle loadFunc env) pls;
          failedCount = length (filter (\<lambda>result. status result = rejected) results)
      in \<lparr>results = results, failedCount = failedCount,
          doneMessage = (if failedCount = 0 then ''Done, got them all!''
                         else ''Done, but with '' @ showNat failedCount @ '' failed.'')\<rparr>)"

section \<open>The Markdown loader\<close>

text \<open>
  \<^verbatim>\<open>loadMarkdownFilePromise\<close>. \<open>outputValueOf\<close> is the chain of type tests that sets
  \<^verbatim>\<open>outputValue\<close> for one frontmatter entry; \<open>None\<close> is \<^verbatim>\<open>undefined\<close>, for which no line
  is written. The branch for a string with a newline appends to \<^verbatim>\<open>outputValue\<close>
  while it is still \<^verbatim>\<open>undefined\<close> (the assignment before the loop is commented out in
  the source), and \<^verbatim>\<open>+=\<close> turns \<^verbatim>\<open>undefined\<close> into the text "undefined". The last
  branch calls \<^verbatim>\<open>replace\<close> on \<^verbatim>\<open>value ?? ''\<close>, which only a string has.
\<close>

definition newline :: string where
  "newline = [CHR 0x0A]"

definition dquote :: string where
  "dquote = [CHR 0x22]"

definition showInt :: "int \<Rightarrow> string" where
  "showInt i = (if i < 0 then ''-'' @ showNat (nat (- i)) else showNat (nat i))"

definition escapeQuotes :: "string \<Rightarrow> string" where
  "escapeQuotes s = concat (map (\<lambda>c. if c = CHR 0x22 then [CHR 0x5C, CHR 0x22] else [c]) s)"

definition appendTo :: "string option \<Rightarrow> string \<Rightarrow> string option" where
  "appendTo outputValue s =
     Some ((case outputValue of None \<Rightarrow> ''undefined'' | Some v \<Rightarrow> v) @ s)"

fun outputValueOf :: "config \<Rightarrow> fm_value \<Rightarrow> error + string option" where
  "outputValueOf cfg (VArray items) =
     Inr (if length items > 0
          then Some (foldl (\<lambda>list it. list @ newline @ ''  - '' @ dquote @ it @ dquote) [] items)
          else None)"
| "outputValueOf cfg (VInteger n) = Inr (Some (showInt n))"
| "outputValueOf cfg (VDateTime d) =
     (let v = (if dateFormat cfg \<noteq> [] then toFormat d (dateFormat cfg)
               else if includeTime cfg then toISO d else toISODate d)
      in Inr (Some (if quoteDate cfg then dquote @ v @ dquote else v)))"
| "outputValueOf cfg (VBoolean b) = Inr (Some (if b then ''true'' else ''false''))"
| "outputValueOf cfg (VObject obj) =
     Inr (Some (foldl (\<lambda>out sub. out @ newline @ ''  '' @ fst sub @ '': '' @ snd sub) []
                  (Object_entries obj)))"
| "outputValueOf cfg (VString s) =
     (if CHR 0x0A \<in> set s
      then Inr (foldl (\<lambda>outputValue line. appendTo outputValue (''  '' @ line @ newline)) None
                  (split_on CHR 0x0A s))
      else (let escapedValue = escapeQuotes s
            in Inr (if length escapedValue > 0 then Some (dquote @ escapedValue @ dquote)
                    else None)))"
| "outputValueOf cfg VNull = Inr None"
| "outputValueOf cfg VUndefined = Inr None"
| "outputValueOf cfg VOther = Inl (TypeError ''value.replace is not a function'')"

definition frontmatterLine :: "config \<Rightarrow> string \<Rightarrow> string \<times> fm_value \<Rightarrow> error + string" where
  "frontmatterLine cfg out entry =
     (case outputValueOf cfg (snd entry) of
        Inl e \<Rightarrow> Inl e
      | Inr None \<Rightarrow> Inr out
      | Inr (Some outputValue) \<Rightarrow> Inr (out @ fst entry @ '': '' @ outputValue @ newline))"

definition loadMarkdownFilePromise :: "config \<Rightarrow> post \<Rightarrow> error + string" where
  "loadMarkdownFilePromise cfg p =
     (case foldE (frontmatterLine cfg) (''---'' @ newline) (Object_entries (frontmatter p)) of
        Inl e \<Rightarrow> Inl e
      | Inr header \<Rightarrow>
          Inr (foldl (\<lambda>out meta. out @ newline @ newline @ ''::'' @ fst meta @ newline
                                    @ snd meta @ newline @ ''::'' @ newline)
                 (header @ ''---'' @ newline @ newline @ content p @ newline)
                 (Object_entries (metaContent p))))"

section \<open>The destinations that the planning loops test\<close>

text \<open>
  For the statements about planning: the destination that the Markdown loop computes
  for each member of a group and the image loop for each image URL of each member, in
  the order of the loops; the destinations of the payloads of a planning result; and
  the relation between the plan before and after a part of a loop that has tested the
  destinations \<open>dests\<close>.
\<close>

definition markdownDestinations :: "shared \<Rightarrow> post list \<Rightarrow> string list" where
  "markdownDestinations sh postsInGroup =
     (if config.polylang (config sh) \<and> length postsInGroup > 1 then
        (case chooseBaseSlug postsInGroup (defaultLanguage (config sh)) of
           Inl e \<Rightarrow> []
         | Inr baseSlug \<Rightarrow>
             map (translationDestination sh
                    (buildPostPath sh ((hd postsInGroup)\<lparr>slug := baseSlug\<rparr>)) baseSlug)
               postsInGroup)
      else map (buildPostPath sh) postsInGroup)"

definition imageDestinationsIn :: "shared \<Rightarrow> string \<Rightarrow> post \<Rightarrow> string list" where
  "imageDestinationsIn sh dir p =
     map (\<lambda>imageUrl. path_join [dir, getFilenameFromUrl sh imageUrl]) (imageUrls p)"

definition imageDestinations :: "shared \<Rightarrow> post list \<Rightarrow> string list" where
  "imageDestinations sh postsInGroup =
     (if config.polylang (config sh) \<and> length postsInGroup > 1 then
        (case chooseBaseSlug postsInGroup (defaultLanguage (config sh)) of
           Inl e \<Rightarrow> []
         | Inr baseSlug \<Rightarrow>
             concat (map (imageDestinationsIn sh
                            (path_join [if postFolders (config sh)
                                        then path_join [outputDir (config sh), baseSlug]
                                        else outputDir (config sh), ''images'']))
                       postsInGroup))
      else concat (map (\<lambda>p. imageDestinationsIn sh
                                (path_join [path_dirname (buildPostPath sh p), ''images'']) p)
                     postsInGroup))"

definition allMarkdownDestinations :: "shared \<Rightarrow> post list object \<Rightarrow> string list" where
  "allMarkdownDestinations sh groupMap =
     concat (map (\<lambda>entry. markdownDestinations sh (snd entry)) (Object_entries groupMap))"

definition allImageDestinations :: "shared \<Rightarrow> post list object \<Rightarrow> string list" where
  "allImageDestinations sh groupMap =
     concat (map (\<lambda>entry. imageDestinations sh (snd entry)) (Object_entries groupMap))"

definition plannedDestinations :: "error + 'a plan \<Rightarrow> string list" where
  "plannedDestinations planned =
     (case planned of Inl e \<Rightarrow> [] | Inr st \<Rightarrow> map destinationPath (payloads st))"

definition tested :: "fs \<Rightarrow> 'a plan \<Rightarrow> string list \<Rightarrow> 'a plan \<Rightarrow> bool" where
  "tested files st dests st' =
     (map destinationPath (payloads st')
        = map destinationPath (payloads st) @ filter (\<lambda>d. d \<notin> files) dests
      \<and> existingCount st' = existingCount st + length (filter (\<lambda>d. d \<in> files) dests))"

section \<open>Inputs used in the examples\<close>

text \<open>
  A configuration with Polylang mode and per-post folders on, a post as \<^verbatim>\<open>buildPost\<close>
  leaves it, and an English and a French post of one translation set, as step 7 of the
  parser completes them.
\<close>

definition exampleConfig :: config where
  "exampleConfig =
     \<lparr>config.polylang = True, postFolders = True, outputDir = ''output'',
      defaultLanguage = Some ''en'', writeDelay = 25, requestDelay = 500,
      dateFormat = [], includeTime = False, quoteDate = False\<rparr>"

definition newPost :: "string \<Rightarrow> string \<Rightarrow> post" where
  "newPost i s =
     \<lparr>post_id = i, post_type = ''post'', slug = s, language = None,
      polylang = \<lparr>polylang_info.language = None, groupSlug = None, translationMap = None\<rparr>,
      frontmatter = [], metaContent = [], content = ''body'', imageUrls = [],
      coverImageId = None\<rparr>"

definition exampleMappings :: "string object object" where
  "exampleMappings = [(''pll_1'', [(''en'', ''1''), (''fr'', ''2'')])]"

definition postEn :: post where
  "postEn =
     attachPolylang exampleMappings
       [(''language'', ''en''), (''post_translations'', ''pll_1'')] (newPost ''1'' ''hello'')"

definition postFr :: post where
  "postFr =
     attachPolylang exampleMappings
       [(''language'', ''fr''), (''post_translations'', ''pll_1'')] (newPost ''2'' ''bonjour'')"

text \<open>The frontmatter values for which the loader writes no line.\<close>

definition omitted :: "fm_value \<Rightarrow> bool" where
  "omitted v = (v = VArray [] \<or> v = VNull \<or> v = VUndefined \<or> v = VString [])"

text \<open>
  Five image payloads, a loader that fails for the third URL, and file operations that
  succeed.
\<close>

definition imagePayload :: "string \<Rightarrow> string payload" where
  "imagePayload url =
     \<lparr>item = url, type = ''image'', name = Some (spec_getFilenameFromUrl url),
      destinationPath = ''output/hello/images/'' @ spec_getFilenameFromUrl url,
      payload.delay = 0\<rparr>"

definition fivePayloads :: "string payload list" where
  "fivePayloads =
     map imagePayload
       [''http://example.org/1.png'', ''http://example.org/2.png'', ''http://example.org/3.png'',
        ''http://example.org/4.png'', ''http://example.org/5.png'']"

definition failingLoader :: "string \<Rightarrow> error + string" where
  "failingLoader url =
     (if url = ''http://example.org/3.png'' then Inl (Error ''Request failed with status code 404'')
      else Inr ''bytes'')"

definition quietIo :: "string io" where
  "quietIo = \<lparr>mkdir = (\<lambda>dir. None), fsWriteFile = (\<lambda>dest data. None)\<rparr>"

text \<open>
  A post without translation metadata, two posts with the same id, and a
  \<^verbatim>\<open>post_translations\<close> term whose description cannot be parsed, with a post that
  refers to it.
\<close>

definition postSolo :: post where
  "postSolo = attachPolylang exampleMappings [(''category'', ''news'')] (newPost ''3'' ''solo'')"

definition exampleUnserialize :: "string \<Rightarrow> error + string object" where
  "exampleUnserialize raw =
     (if raw = ''a:2:{en:1,fr:2}'' then Inr [(''en'', ''1''), (''fr'', ''2'')]
      else Inl (Error ''Syntax error''))"

definition brokenTerm :: wp_term where
  "brokenTerm =
     \<lparr>term_taxonomy = ''post_translations'', term_slug = ''pll_9'', term_description = ''a:2:{en''\<rparr>"

definition postBroken :: post where
  "postBroken =
     attachPolylang (termMappings (parseTerms exampleUnserialize (\<lambda>v. v) [brokenTerm]))
       [(''language'', ''en''), (''post_translations'', ''pll_9'')] (newPost ''7'' ''lonely'')"

text \<open>The two translations again, each with the same attached image.\<close>

definition postFrImage :: post where
  "postFrImage = postFr\<lparr>imageUrls := [''http://example.org/uploads/a.png'']\<rparr>"

definition postEnImage :: post where
  "postEnImage = postEn\<lparr>imageUrls := [''http://example.org/uploads/a.png'']\<rparr>"

section \<open>Properties of the Markdown loader\<close>

lemma foldE_filter:
  assumes "\<And>s x. x \<in> set xs \<Longrightarrow> \<not> P x \<Longrightarrow> f s x = Inr s"
  shows "foldE f s (filter P xs) = foldE f s xs"
  using assms
proof (induction xs arbitrary: s)
  case Nil
  then show ?case by simp
next
  case (Cons x xs)
  then show ?case by (cases "P x") (auto split: sum.splits)
qed

lemma Object_entries_filter:
  "Object_entries (filter P obj) = filter P (Object_entries obj)"
  by (simp add: Object_entries_def filter_sort conj_commute)

lemma frontmatterLine_omitted:
  "omitted (snd entry) \<Longrightarrow> frontmatterLine cfg out entry = Inr out"
  by (auto simp: omitted_def frontmatterLine_def escapeQuotes_def)

lemma loader_drops_omitted:
  "loadMarkdownFilePromise cfg
     (p\<lparr>frontmatter := filter (\<lambda>entry. \<not> omitted (snd entry)) (frontmatter p)\<rparr>)
     = loadMarkdownFilePromise cfg p"
proof -
  have "foldE (frontmatterLine cfg) s (filter (\<lambda>entry. \<not> omitted (snd entry)) es)
          = foldE (frontmatterLine cfg) s es" for s es
    by (rule foldE_filter) (simp add: frontmatterLine_omitted)
  then show ?thesis
    by (simp add: loadMarkdownFilePromise_def Object_entries_filter cong: sum.case_cong)
qed

text \<open>
  Claim C10. A frontmatter entry whose value is an empty array, \<^verbatim>\<open>null\<close>, \<^verbatim>\<open>undefined\<close>
  or the empty string adds nothing to the header, whatever its key: the loader's output
  is the output for the post without these entries.
\<close>

theorem C10_empty_values_are_omitted:
  "frontmatterLine cfg out (key, VArray []) = Inr out
   \<and> frontmatterLine cfg out (key, VNull) = Inr out
   \<and> frontmatterLine cfg out (key, VUndefined) = Inr out
   \<and> frontmatterLine cfg out (key, VString []) = Inr out
   \<and> loadMarkdownFilePromise cfg
        (p\<lparr>frontmatter := filter (\<lambda>entry. \<not> omitted (snd entry)) (frontmatter p)\<rparr>)
       = loadMarkdownFilePromise cfg p"
  by (intro conjI frontmatterLine_omitted loader_drops_omitted) (simp_all add: omitted_def)

theorem C10_witness:
  "loadMarkdownFilePromise exampleConfig
     ((newPost ''1'' ''hello'')\<lparr>frontmatter := [(''title'', VString ''Hi'')]\<rparr>)
   = loadMarkdownFilePromise exampleConfig
       ((newPost ''1'' ''hello'')
          \<lparr>frontmatter := [(''tags'', VArray []), (''title'', VString ''Hi''), (''cover'', VNull),
                            (''draft'', VUndefined), (''excerpt'', VString [])]\<rparr>)"
  using C10_empty_values_are_omitted
    [of exampleConfig "[]" "[]"
        "(newPost ''1'' ''hello'')
           \<lparr>frontmatter := [(''tags'', VArray []), (''title'', VString ''Hi''), (''cover'', VNull),
                             (''draft'', VUndefined), (''excerpt'', VString [])]\<rparr>"]
  by (simp add: omitted_def)

text \<open>
  Claim C8 (not met by the code). A multi-line string should become an indented literal
  block under its key. The loader appends the indented lines to an \<^verbatim>\<open>outputValue\<close>
  that is still \<^verbatim>\<open>undefined\<close>: for the value with the two lines \<open>a\<close> and \<open>b\<close> the
  header line reads \<^verbatim>\<open>description: undefined  a\<close>, so the first line of the value is
  on the key's line behind the text "undefined", and no block marker is written.
\<close>

theorem C8_multiline_value_output:
  "loadMarkdownFilePromise exampleConfig
     ((newPost ''1'' ''hello'')\<lparr>frontmatter := [(''description'', VString ''a\<newline>b'')]\<rparr>)
   = Inr ''---\<newline>description: undefined  a\<newline>  b\<newline>\<newline>---\<newline>\<newline>body\<newline>''"
  by (simp add: loadMarkdownFilePromise_def newPost_def Object_entries_def isArrayIndex_def
        isDigit_def frontmatterLine_def appendTo_def newline_def)

section \<open>Properties of the base slug\<close>

text \<open>
  Claim C1 (not met by the code). The base slug should be the slug of the member in the
  default language. \<^verbatim>\<open>chooseBaseSlug\<close> reads \<^verbatim>\<open>p.language\<close>, which no post has (the
  parser stores the language in \<^verbatim>\<open>post.polylang.language\<close>), so no member matches a
  default language and the first member wins: for the group of the French post
  \<open>bonjour\<close> followed by the English post \<open>hello\<close> and the default language \<open>en\<close>,
  the result is \<open>bonjour\<close>.
\<close>

theorem C1_base_slug_ignores_language:
  "chooseBaseSlug [postFr, postEn] (Some ''en'') = Inr ''bonjour''
   \<and> polylang_info.language (polylang postEn) = Some ''en''
   \<and> slug postEn = ''hello''"
  by (simp add: chooseBaseSlug_def postFr_def postEn_def attachPolylang_def newPost_def
        readCategory_def exampleMappings_def getProperty_def)

section \<open>Properties of the executor\<close>

lemma results_map:
  "results (processPayloadsPromise pls loadFunc env) = map (settle loadFunc env) pls"
  by (simp add: processPayloadsPromise_def Let_def)

lemma failedCount_eq:
  "failedCount (processPayloadsPromise pls loadFunc env)
     = length (filter (\<lambda>r. status r = rejected) (map (settle loadFunc env) pls))"
  by (simp add: processPayloadsPromise_def Let_def)

lemma status_cases: "(s::status) \<noteq> rejected \<longleftrightarrow> s = fulfilled"
  by (cases s) auto

lemma count_split:
  "length (filter (\<lambda>r. status r = fulfilled) rs)
     + length (filter (\<lambda>r. status r = rejected) rs) = length rs"
  by (induction rs) (auto simp: status_cases [symmetric])

lemma settle_rejected:
  "status (settle loadFunc env pl) = rejected \<longleftrightarrow>
     (\<exists>ex. loadFunc (item pl) = Inl ex)
     \<or> (\<exists>d ex. loadFunc (item pl) = Inr d \<and> writeFile env (destinationPath pl) d = Some ex)"
  by (auto simp: settle_def split: sum.splits option.splits)

text \<open>
  Claim C5. The executor returns a summary for every payload list, loader and outcome
  of the file operations (it has no failing result). It holds one settled result for
  each payload; the fulfilled and the rejected ones add up to the number of payloads; a
  unit is rejected exactly when its loader or its write fails; and the result of a unit
  is that of its own payload, whatever payloads stand before and after it.
\<close>

theorem C5_executor_settles_every_unit:
  "length (results (processPayloadsPromise pls loadFunc env)) = length pls
   \<and> length (filter (\<lambda>r. status r = fulfilled) (results (processPayloadsPromise pls loadFunc env)))
       + failedCount (processPayloadsPromise pls loadFunc env) = length pls
   \<and> (status (settle loadFunc env pl) = rejected \<longleftrightarrow>
         (\<exists>ex. loadFunc (item pl) = Inl ex)
         \<or> (\<exists>d ex. loadFunc (item pl) = Inr d \<and> writeFile env (destinationPath pl) d = Some ex))
   \<and> results (processPayloadsPromise (before @ pl # after) loadFunc env)
       = results (processPayloadsPromise before loadFunc env)
         @ settle loadFunc env pl # results (processPayloadsPromise after loadFunc env)"
  using count_split [of "map (settle loadFunc env) pls"] settle_rejected [of loadFunc env pl]
  by (simp add: results_map failedCount_eq)

theorem C5_witness:
  "length (filter (\<lambda>r. status r = fulfilled)
             (results (processPayloadsPromise fivePayloads failingLoader quietIo))) = 4
   \<and> failedCount (processPayloadsPromise fivePayloads failingLoader quietIo) = 1
   \<and> doneMessage (processPayloadsPromise fivePayloads failingLoader quietIo)
       = ''Done, but with 1 failed.''"
  using C5_executor_settles_every_unit
    [of fivePayloads failingLoader quietIo "imagePayload ''http://example.org/3.png''" "[]" "[]"]
  by (simp add: processPayloadsPromise_def fivePayloads_def imagePayload_def failingLoader_def
        quietIo_def settle_def writeFile_def Let_def)

section \<open>Properties of objects\<close>

lemma map_fst_setProperty:
  "map fst (setProperty obj k v) = (if k \<in> fst ` set obj then map fst obj else map fst obj @ [k])"
  by (induction obj) (auto simp: setProperty_def)

lemma map_of_replace:
  "map_of (map (\<lambda>kv. if fst kv = k then (k, v) else kv) obj) x
     = (if x = k then (if k \<in> fst ` set obj then Some v else None) else map_of obj x)"
  by (induction obj) (auto simp: rev_image_eqI)

lemma map_of_setProperty:
  "map_of (setProperty obj k v) = (map_of obj)(k \<mapsto> v)"
proof (cases "k \<in> fst ` set obj")
  case True
  then show ?thesis by (auto simp: setProperty_def map_of_replace fun_eq_iff)
next
  case False
  then have "map_of obj k = None" by (simp add: map_of_eq_None_iff)
  with False show ?thesis
    by (auto simp: setProperty_def fun_eq_iff map_add_def split: option.splits)
qed

lemma mset_Object_entries: "mset (Object_entries obj) = mset obj"
  by (simp add: Object_entries_def)

lemma set_Object_entries: "set (Object_entries obj) = set obj"
  using mset_Object_entries [of obj] by (metis set_mset_mset)

lemma sort_Object_values: "sort (Object_values tm) = sort (map snd tm)"
proof -
  have "mset (Object_values tm) = mset (map snd tm)"
    by (simp add: Object_values_def mset_Object_entries)
  then show ?thesis
    by (metis properties_for_sort sorted_sort mset_sort)
qed

lemma length_Object_keys: "length (Object_keys obj) = length obj"
  using mset_Object_entries [of obj] by (metis Object_keys_def length_map size_mset)

section \<open>Properties of the translation groups\<close>

lemma map_of_pushToGroup:
  "map_of (pushToGroup groups key p)
     = (map_of groups)(key \<mapsto> (case map_of groups key of None \<Rightarrow> [p] | Some ms \<Rightarrow> ms @ [p]))"
  by (simp add: pushToGroup_def getProperty_def map_of_setProperty split: option.splits)

lemma keys_pushToGroup:
  "map fst (pushToGroup groups key p)
     = (if key \<in> fst ` set groups then map fst groups else map fst groups @ [key])"
  by (simp add: pushToGroup_def map_fst_setProperty split: option.splits)

lemma buildTranslationGroups_snoc:
  "buildTranslationGroups (ps @ [p]) = pushToGroup (buildTranslationGroups ps) (groupKey p) p"
  by (simp add: buildTranslationGroups_def)

lemma buildTranslationGroups_distinct:
  "distinct (map fst (buildTranslationGroups ps))"
  by (induction ps rule: rev_induct)
     (simp_all add: buildTranslationGroups_snoc keys_pushToGroup buildTranslationGroups_def)

lemma buildTranslationGroups_lookup:
  "map_of (buildTranslationGroups ps) k
     = (if k \<in> groupKey ` set ps then Some (filter (\<lambda>p. groupKey p = k) ps) else None)"
proof (induction ps rule: rev_induct)
  case Nil
  then show ?case by (simp add: buildTranslationGroups_def)
next
  case (snoc p ps)
  have none: "filter (\<lambda>q. groupKey q = groupKey p) ps = []" if "groupKey p \<notin> groupKey ` set ps"
    using that by (simp add: filter_empty_conv image_iff) metis
  show ?case
  proof (cases "k = groupKey p")
    case True
    with snoc none show ?thesis
      by (simp add: buildTranslationGroups_snoc map_of_pushToGroup)
  next
    case False
    with snoc show ?thesis
      by (simp add: buildTranslationGroups_snoc map_of_pushToGroup)
  qed
qed

lemma buildTranslationGroups_entry:
  "(k, ms) \<in> set (buildTranslationGroups ps)
     \<longleftrightarrow> k \<in> groupKey ` set ps \<and> ms = filter (\<lambda>p. groupKey p = k) ps"
proof -
  have "(k, ms) \<in> set (buildTranslationGroups ps)
          \<longleftrightarrow> map_of (buildTranslationGroups ps) k = Some ms"
    using buildTranslationGroups_distinct by (metis map_of_eq_Some_iff)
  then show ?thesis by (auto simp: buildTranslationGroups_lookup)
qed

lemma group_of_post:
  assumes "p \<in> set ps"
  shows "(groupKey p, filter (\<lambda>q. groupKey q = groupKey p) ps) \<in> set (buildTranslationGroups ps)"
  using assms by (simp add: buildTranslationGroups_entry)

lemma one_group_per_post:
  assumes "p \<in> set ps"
  shows "\<exists>!entry. entry \<in> set (buildTranslationGroups ps) \<and> p \<in> set (snd entry)"
proof (rule ex1I [of _ "(groupKey p, filter (\<lambda>q. groupKey q = groupKey p) ps)"])
  show "(groupKey p, filter (\<lambda>q. groupKey q = groupKey p) ps) \<in> set (buildTranslationGroups ps)
          \<and> p \<in> set (snd (groupKey p, filter (\<lambda>q. groupKey q = groupKey p) ps))"
    using assms by (simp add: group_of_post)
next
  fix entry
  assume e: "entry \<in> set (buildTranslationGroups ps) \<and> p \<in> set (snd entry)"
  obtain k ms where km: "entry = (k, ms)" by (cases entry)
  with e have mem: "(k, ms) \<in> set (buildTranslationGroups ps)" and p: "p \<in> set ms"
    by simp_all
  from mem have ms: "ms = filter (\<lambda>q. groupKey q = k) ps"
    by (simp add: buildTranslationGroups_entry)
  with p have "k = groupKey p" by simp
  with km ms
  show "entry = (groupKey p, filter (\<lambda>q. groupKey q = groupKey p) ps)" by simp
qed

lemma groupKey_mapped:
  "translationMap (polylang p) = Some tm \<Longrightarrow> tm \<noteq> [] \<Longrightarrow>
     groupKey p = join_with '','' (sort (map snd tm))"
  by (simp add: groupKey_def length_Object_keys sort_Object_values)

lemma groupKey_orphan:
  "translationMap (polylang p) = None \<or> translationMap (polylang p) = Some [] \<Longrightarrow>
     groupKey p = post_id p"
  by (auto simp: groupKey_def length_Object_keys)

lemma equivalent_maps_values:
  assumes "distinct (map fst tm)" "distinct (map fst tm')" "map_of tm = map_of tm'"
  shows "sort (map snd tm) = sort (map snd tm')"
proof -
  have "set tm = set tm'"
    using assms by (metis map_of_inject_set)
  moreover have "distinct tm" "distinct tm'"
    using assms by (simp_all add: distinct_map)
  ultimately have "mset tm = mset tm'"
    by (simp add: set_eq_iff_mset_eq_distinct)
  then have "mset (map snd tm) = mset (map snd tm')"
    by (metis mset_map)
  then show ?thesis
    by (metis properties_for_sort sorted_sort mset_sort)
qed

lemma equivalent_maps_same_group:
  assumes "p \<in> set ps" "q \<in> set ps"
    "translationMap (polylang p) = Some tm" "translationMap (polylang q) = Some tm'"
    "tm \<noteq> []" "distinct (map fst tm)" "distinct (map fst tm')" "map_of tm = map_of tm'"
  shows "\<exists>entry \<in> set (buildTranslationGroups ps). p \<in> set (snd entry) \<and> q \<in> set (snd entry)"
proof -
  from assms(5,8) have "tm' \<noteq> []" by auto
  with assms have "groupKey q = groupKey p"
    using equivalent_maps_values [of tm tm'] by (simp add: groupKey_mapped)
  with assms(1,2) group_of_post [of p ps] show ?thesis
    by (intro bexI [of _ "(groupKey p, filter (\<lambda>r. groupKey r = groupKey p) ps)"]) simp_all
qed

text \<open>
  Claim C6. In Polylang mode the group map has one entry for each key; every post of
  the collection is a member of exactly one entry, the one under its own key; the
  members of an entry are the posts with that key, in the order of the collection. The
  key of a post with a non-empty translation map is the comma-joined sorted list of the
  mapped ids, the key of any other post is its id. Two posts whose translation maps
  hold the same associations are members of the same entry.
\<close>

theorem C6_every_post_in_one_group:
  "distinct (map fst (buildTranslationGroups posts))
   \<and> (p \<in> set posts \<longrightarrow>
        (groupKey p, filter (\<lambda>r. groupKey r = groupKey p) posts) \<in> set (buildTranslationGroups posts)
        \<and> (\<exists>!entry. entry \<in> set (buildTranslationGroups posts) \<and> p \<in> set (snd entry)))
   \<and> (entry \<in> set (buildTranslationGroups posts) \<longrightarrow>
        snd entry = filter (\<lambda>r. groupKey r = fst entry) posts)
   \<and> (translationMap (polylang p) = Some tm \<and> tm \<noteq> [] \<longrightarrow>
        groupKey p = join_with '','' (sort (map snd tm)))
   \<and> (translationMap (polylang p) = None \<or> translationMap (polylang p) = Some [] \<longrightarrow>
        groupKey p = post_id p)
   \<and> (p \<in> set posts \<and> q \<in> set posts
        \<and> translationMap (polylang p) = Some tm \<and> translationMap (polylang q) = Some tm'
        \<and> tm \<noteq> [] \<and> distinct (map fst tm) \<and> distinct (map fst tm') \<and> map_of tm = map_of tm' \<longrightarrow>
        (\<exists>e \<in> set (buildTranslationGroups posts). p \<in> set (snd e) \<and> q \<in> set (snd e)))"
proof (intro conjI impI)
  show "distinct (map fst (buildTranslationGroups posts))"
    by (rule buildTranslationGroups_distinct)
next
  assume "p \<in> set posts"
  then show "(groupKey p, filter (\<lambda>r. groupKey r = groupKey p) posts)
               \<in> set (buildTranslationGroups posts)"
    by (rule group_of_post)
next
  assume "p \<in> set posts"
  then show "\<exists>!entry. entry \<in> set (buildTranslationGroups posts) \<and> p \<in> set (snd entry)"
    by (rule one_group_per_post)
next
  assume mem: "entry \<in> set (buildTranslationGroups posts)"
  obtain k ms where "entry = (k, ms)" by (cases entry)
  with mem show "snd entry = filter (\<lambda>r. groupKey r = fst entry) posts"
    by (simp add: buildTranslationGroups_entry)
next
  assume "translationMap (polylang p) = Some tm \<and> tm \<noteq> []"
  then show "groupKey p = join_with '','' (sort (map snd tm))"
    by (simp add: groupKey_mapped)
next
  assume "translationMap (polylang p) = None \<or> translationMap (polylang p) = Some []"
  then show "groupKey p = post_id p"
    by (rule groupKey_orphan)
next
  assume "p \<in> set posts \<and> q \<in> set posts
        \<and> translationMap (polylang p) = Some tm \<and> translationMap (polylang q) = Some tm'
        \<and> tm \<noteq> [] \<and> distinct (map fst tm) \<and> distinct (map fst tm') \<and> map_of tm = map_of tm'"
  then show "\<exists>e \<in> set (buildTranslationGroups posts). p \<in> set (snd e) \<and> q \<in> set (snd e)"
    using equivalent_maps_same_group [of p posts q tm tm'] by simp
qed

lemmas example_defs = postFr_def postEn_def postSolo_def attachPolylang_def newPost_def
  readCategory_def exampleMappings_def getProperty_def

lemmas group_defs = buildTranslationGroups_def pushToGroup_def setProperty_def groupKey_def
  Object_keys_def Object_values_def Object_entries_def isArrayIndex_def isDigit_def
  decimalValue_def

theorem C6_witness:
  "buildTranslationGroups [postFr, postEn, postSolo]
     = [(''1,2'', [postFr, postEn]), (''3'', [postSolo])]
   \<and> (\<exists>e \<in> set (buildTranslationGroups [postFr, postEn, postSolo]).
         postFr \<in> set (snd e) \<and> postEn \<in> set (snd e))"
  using C6_every_post_in_one_group
    [of "[postFr, postEn, postSolo]" postFr "(''3'', [postSolo])"
        "[(''en'', ''1''), (''fr'', ''2'')]" postEn "[(''en'', ''1''), (''fr'', ''2'')]"]
  by (simp add: example_defs group_defs)

section \<open>Grouping with and without Polylang mode\<close>

lemma orphans_grouped_by_id:
  assumes "distinct (map post_id ps)"
    "\<forall>p \<in> set ps. translationMap (polylang p) = None \<or> translationMap (polylang p) = Some []"
  shows "buildTranslationGroups ps = map (\<lambda>p. (post_id p, [p])) ps"
  using assms
proof (induction ps rule: rev_induct)
  case Nil
  then show ?case by (simp add: buildTranslationGroups_def)
next
  case (snoc p ps)
  then have IH: "buildTranslationGroups ps = map (\<lambda>p. (post_id p, [p])) ps" by simp
  from snoc.prems have key: "groupKey p = post_id p" by (simp add: groupKey_orphan)
  from snoc.prems have new: "post_id p \<notin> post_id ` set ps" by simp
  then have "map_of (map (\<lambda>p. (post_id p, [p])) ps) (post_id p) = None"
    by (simp add: map_of_eq_None_iff image_image)
  with new show ?case
    by (simp add: buildTranslationGroups_snoc IH key pushToGroup_def getProperty_def setProperty_def
          image_image)
qed

lemma assigned_by_id:
  assumes "distinct (map post_id ps)"
  shows "foldl (\<lambda>groupMap p. setProperty groupMap (post_id p) [p]) [] ps
           = map (\<lambda>p. (post_id p, [p])) ps"
  using assms
proof (induction ps rule: rev_induct)
  case Nil
  then show ?case by simp
next
  case (snoc p ps)
  then show ?case by (simp add: setProperty_def image_image)
qed

text \<open>
  Claim C7. The parser looks posts up by their id, so the posts of a collection have
  pairwise different ids. For such a collection in which no post has a (non-empty)
  translation map, the group map built in Polylang mode is the group map built without
  it: one singleton group for each post, under the post's id, in the order of the
  collection.
\<close>

theorem C7_singleton_groups:
  assumes "distinct (map post_id posts)"
    and "\<forall>p \<in> set posts.
           translationMap (polylang p) = None \<or> translationMap (polylang p) = Some []"
    and "config.polylang (config shOn)" and "\<not> config.polylang (config shOff)"
  shows "buildGroupMap shOn posts = buildGroupMap shOff posts
         \<and> buildGroupMap shOn posts = map (\<lambda>p. (post_id p, [p])) posts"
  using assms by (simp add: buildGroupMap_def orphans_grouped_by_id assigned_by_id)

theorem C7_witness:
  "buildGroupMap (spec_shared exampleConfig) [postSolo, newPost ''4'' ''other'']
     = buildGroupMap (spec_shared (exampleConfig\<lparr>config.polylang := False\<rparr>))
         [postSolo, newPost ''4'' ''other'']
   \<and> buildGroupMap (spec_shared exampleConfig) [postSolo, newPost ''4'' ''other'']
       = [(''3'', [postSolo]), (''4'', [newPost ''4'' ''other''])]"
  using C7_singleton_groups
    [of "[postSolo, newPost ''4'' ''other'']" "spec_shared exampleConfig"
        "spec_shared (exampleConfig\<lparr>config.polylang := False\<rparr>)"]
  by (simp add: spec_shared_def exampleConfig_def example_defs buildGroupMap_def group_defs)

section \<open>Unparsable translation metadata\<close>

lemma parseTerms_snoc:
  "parseTerms unserialize toString (ts @ [t])
     = parseTerm unserialize toString (parseTerms unserialize toString ts) t"
  by (simp add: parseTerms_def)

lemma warnings_parseTerm_mono:
  "set (warnings st) \<subseteq> set (warnings (parseTerm unserialize toString st t))"
  by (auto simp: parseTerm_def split: sum.splits)

lemma parseTerms_warns:
  assumes "t \<in> set ts" "term_taxonomy t = ''post_translations''"
    "unserialize (term_description t) = Inl err"
  shows "(''Could not parse term_description for '' @ term_slug t)
           \<in> set (warnings (parseTerms unserialize toString ts))"
  using assms(1)
proof (induction ts rule: rev_induct)
  case Nil
  then show ?case by simp
next
  case (snoc x xs)
  show ?case
  proof (cases "x = t")
    case True
    with assms(2,3) show ?thesis by (simp add: parseTerms_snoc parseTerm_def)
  next
    case False
    with snoc have "(''Could not parse term_description for '' @ term_slug t)
           \<in> set (warnings (parseTerms unserialize toString xs))" by simp
    then show ?thesis
      using warnings_parseTerm_mono [of "parseTerms unserialize toString xs" unserialize toString x]
      by (auto simp: parseTerms_snoc)
  qed
qed

lemma parseTerms_no_mapping:
  assumes "\<And>t. t \<in> set ts \<Longrightarrow> term_taxonomy t = ''post_translations'' \<Longrightarrow> term_slug t = gs
             \<Longrightarrow> \<exists>err. unserialize (term_description t) = Inl err"
  shows "getProperty (termMappings (parseTerms unserialize toString ts)) gs = None"
  using assms
proof (induction ts rule: rev_induct)
  case Nil
  then show ?case by (simp add: parseTerms_def getProperty_def)
next
  case (snoc x xs)
  then have IH: "getProperty (termMappings (parseTerms unserialize toString xs)) gs = None"
    by simp
  from snoc.prems [of x]
  have x: "term_taxonomy x = ''post_translations'' \<Longrightarrow> term_slug x = gs
             \<Longrightarrow> \<exists>err. unserialize (term_description x) = Inl err" by simp
  show ?case
    using IH x
    by (auto simp: parseTerms_snoc parseTerm_def getProperty_def map_of_setProperty
          split: sum.splits)
qed

lemma attachPolylang_unmapped:
  assumes "groupSlug (polylang (attachPolylang mappings cats p)) = Some gs"
    "getProperty mappings gs = None"
  shows "translationMap (polylang (attachPolylang mappings cats p)) = None"
proof -
  have init: "translationMap (foldl readCategory pl cats) = translationMap pl" for pl
    by (induction cats arbitrary: pl) (simp_all add: readCategory_def Let_def)
  show ?thesis
    using assms
      init [of "\<lparr>polylang_info.language = None, groupSlug = None, translationMap = None\<rparr>"]
    by (auto simp: attachPolylang_def Let_def split: option.splits if_splits)
qed

lemma attachPolylang_post_id: "post_id (attachPolylang mappings cats p) = post_id p"
  by (simp add: attachPolylang_def Let_def)

text \<open>
  Claim C9. Let every \<^verbatim>\<open>post_translations\<close> term with the group slug of a post have a
  description that cannot be parsed, and let there be such a term. Parsing the terms
  returns its state with a warning for that slug and without a mapping for it; the
  post is left without a translation map; its group key is its own id; in a collection
  that holds it, it is a member of the group under its id, and this group is the post
  alone when no other post of the collection has this key. No step of this fails.
\<close>

theorem C9_unparsable_metadata_falls_back:
  assumes "t \<in> set termNodes" and "term_taxonomy t = ''post_translations''"
    and "\<forall>t' \<in> set termNodes.
           term_taxonomy t' = ''post_translations'' \<and> term_slug t' = term_slug t \<longrightarrow>
           (\<exists>err. unserialize (term_description t') = Inl err)"
    and "st = parseTerms unserialize toString termNodes"
    and "p' = attachPolylang (termMappings st) cats p"
    and "groupSlug (polylang p') = Some (term_slug t)"
  shows "(''Could not parse term_description for '' @ term_slug t) \<in> set (warnings st)
         \<and> getProperty (termMappings st) (term_slug t) = None
         \<and> translationMap (polylang p') = None
         \<and> groupKey p' = post_id p
         \<and> (p' \<in> set posts \<longrightarrow>
              (post_id p, filter (\<lambda>q. groupKey q = post_id p) posts)
                \<in> set (buildTranslationGroups posts))
         \<and> (posts = before @ p' # after \<and> (\<forall>q \<in> set (before @ after). groupKey q \<noteq> post_id p) \<longrightarrow>
              (post_id p, [p']) \<in> set (buildTranslationGroups posts))"
proof -
  from assms(1,2,3) obtain err where err: "unserialize (term_description t) = Inl err" by blast
  have warn: "(''Could not parse term_description for '' @ term_slug t) \<in> set (warnings st)"
    unfolding assms(4) using assms(1,2) err by (rule parseTerms_warns)
  have none: "getProperty (termMappings st) (term_slug t) = None"
    unfolding assms(4) using assms(3) by (intro parseTerms_no_mapping) blast
  with assms(5,6) have tm: "translationMap (polylang p') = None"
    by (simp add: attachPolylang_unmapped)
  then have key: "groupKey p' = post_id p"
    using assms(5) by (simp add: groupKey_orphan attachPolylang_post_id)
  have member: "(post_id p, filter (\<lambda>q. groupKey q = post_id p) posts)
                  \<in> set (buildTranslationGroups posts)" if "p' \<in> set posts"
    using group_of_post [OF that] key by simp
  have alone: "(post_id p, [p']) \<in> set (buildTranslationGroups posts)"
    if "posts = before @ p' # after \<and> (\<forall>q \<in> set (before @ after). groupKey q \<noteq> post_id p)"
  proof -
    from that have "filter (\<lambda>q. groupKey q = post_id p) posts = [p']"
      using key by (auto simp: filter_empty_conv)
    moreover from that have "p' \<in> set posts" by simp
    ultimately show ?thesis using member by simp
  qed
  from warn none tm key member alone show ?thesis by blast
qed

theorem C9_witness:
  "''Could not parse term_description for pll_9''
     \<in> set (warnings (parseTerms exampleUnserialize (\<lambda>v. v) [brokenTerm]))
   \<and> translationMap (polylang postBroken) = None
   \<and> groupKey postBroken = ''7''
   \<and> (''7'', [postBroken]) \<in> set (buildTranslationGroups [postBroken, postSolo])"
  using C9_unparsable_metadata_falls_back
    [of brokenTerm "[brokenTerm]" exampleUnserialize
        "parseTerms exampleUnserialize (\<lambda>v. v) [brokenTerm]" "\<lambda>v. v" postBroken
        "[(''language'', ''en''), (''post_translations'', ''pll_9'')]" "newPost ''7'' ''lonely''"
        "[postBroken, postSolo]" "[]" "[postSolo]"]
  by (simp add: postBroken_def brokenTerm_def exampleUnserialize_def parseTerms_def parseTerm_def
        example_defs group_defs)

section \<open>Properties of planning\<close>

lemma tested_nil: "tested files st [] st"
  by (simp add: tested_def)

lemma tested_append:
  "tested files st ds st' \<Longrightarrow> tested files st' ds' st'' \<Longrightarrow> tested files st (ds @ ds') st''"
  by (simp add: tested_def)

lemma tested_planItem: "tested files st [dest] (planItem files step st it ty nm dest)"
  by (simp add: tested_def planItem_def existsSync_def)

lemma tested_foldl:
  assumes "\<And>st x. tested files st (dests x) (f st x)"
  shows "tested files st (concat (map dests xs)) (foldl f st xs)"
proof (induction xs arbitrary: st)
  case Nil
  then show ?case by (simp add: tested_nil)
next
  case (Cons x xs)
  from assms [of st x] Cons [of "f st x"] show ?case
    by (simp add: tested_append)
qed

lemma tested_foldl_single:
  assumes "\<And>st x. tested files st [dest x] (f st x)"
  shows "tested files st (map dest xs) (foldl f st xs)"
  using tested_foldl [of files "\<lambda>x. [dest x]" f st xs] assms by simp

lemma tested_foldE:
  assumes "\<And>st x. \<exists>st'. f st x = Inr st' \<and> tested files st (dests x) st'"
  shows "\<exists>st'. foldE f st xs = Inr st' \<and> tested files st (concat (map dests xs)) st'"
proof (induction xs arbitrary: st)
  case Nil
  then show ?case by (simp add: tested_nil)
next
  case (Cons x xs)
  from assms [of st x] obtain st1 where 1: "f st x = Inr st1" "tested files st (dests x) st1"
    by blast
  from Cons [of st1] obtain st2 where 2: "foldE f st1 xs = Inr st2"
    "tested files st1 (concat (map dests xs)) st2" by blast
  from 1 2 show ?case by (auto intro: tested_append)
qed

lemma chooseBaseSlug_nonempty:
  "postsInGroup \<noteq> [] \<Longrightarrow> \<exists>baseSlug. chooseBaseSlug postsInGroup d = Inr baseSlug"
  by (cases postsInGroup) (auto simp: chooseBaseSlug_def split: option.splits)

lemma planMarkdownGroup_tested:
  "\<exists>st'. planMarkdownGroup sh files st ps = Inr st'
         \<and> tested files st (markdownDestinations sh ps) st'"
proof (cases "config.polylang (config sh) \<and> length ps > 1")
  case True
  then have "ps \<noteq> []" by auto
  then obtain b where b: "chooseBaseSlug ps (defaultLanguage (config sh)) = Inr b"
    using chooseBaseSlug_nonempty by blast
  with True show ?thesis
    by (simp add: planMarkdownGroup_def markdownDestinations_def Let_def
          tested_foldl_single tested_planItem)
next
  case False
  then show ?thesis
    by (auto simp add: planMarkdownGroup_def markdownDestinations_def
          tested_foldl_single tested_planItem)
qed

lemma planImages_tested:
  "tested files st (imageDestinationsIn sh dir p) (planImages sh files dir st p)"
  unfolding planImages_def imageDestinationsIn_def Let_def
  by (rule tested_foldl_single) (rule tested_planItem)

lemma planImageGroup_tested:
  "\<exists>st'. planImageGroup sh files st ps = Inr st'
         \<and> tested files st (imageDestinations sh ps) st'"
proof (cases "config.polylang (config sh) \<and> length ps > 1")
  case True
  then have "ps \<noteq> []" by auto
  then obtain b where b: "chooseBaseSlug ps (defaultLanguage (config sh)) = Inr b"
    using chooseBaseSlug_nonempty by blast
  with True show ?thesis
    by (simp add: planImageGroup_def imageDestinations_def Let_def
          tested_foldl planImages_tested)
next
  case False
  then show ?thesis
    by (auto simp add: planImageGroup_def imageDestinations_def Let_def
          tested_foldl planImages_tested)
qed

lemma planMarkdownFiles_tested:
  "\<exists>st. planMarkdownFiles sh files groupMap = Inr st
        \<and> map destinationPath (payloads st)
            = filter (\<lambda>d. d \<notin> files) (allMarkdownDestinations sh groupMap)
        \<and> existingCount st = length (filter (\<lambda>d. d \<in> files) (allMarkdownDestinations sh groupMap))"
proof -
  have "\<exists>st'. foldE (\<lambda>st entry. planMarkdownGroup sh files st (snd entry))
                 \<lparr>existingCount = 0, plan.delay = 0, payloads = []\<rparr> (Object_entries groupMap) = Inr st'
              \<and> tested files \<lparr>existingCount = 0, plan.delay = 0, payloads = []\<rparr>
                   (concat (map (\<lambda>entry. markdownDestinations sh (snd entry)) (Object_entries groupMap))) st'"
    by (rule tested_foldE [where dests = "\<lambda>entry. markdownDestinations sh (snd entry)"])
       (rule planMarkdownGroup_tested)
  then show ?thesis
    by (simp add: planMarkdownFiles_def allMarkdownDestinations_def tested_def)
qed

lemma planImageFiles_tested:
  "\<exists>st. planImageFiles sh files groupMap = Inr st
        \<and> map destinationPath (payloads st)
            = filter (\<lambda>d. d \<notin> files) (allImageDestinations sh groupMap)
        \<and> existingCount st = length (filter (\<lambda>d. d \<in> files) (allImageDestinations sh groupMap))"
proof -
  have "\<exists>st'. foldE (\<lambda>st entry. planImageGroup sh files st (snd entry))
                 \<lparr>existingCount = 0, plan.delay = 0, payloads = []\<rparr> (Object_entries groupMap) = Inr st'
              \<and> tested files \<lparr>existingCount = 0, plan.delay = 0, payloads = []\<rparr>
                   (concat (map (\<lambda>entry. imageDestinations sh (snd entry)) (Object_entries groupMap))) st'"
    by (rule tested_foldE [where dests = "\<lambda>entry. imageDestinations sh (snd entry)"])
       (rule planImageGroup_tested)
  then show ?thesis
    by (simp add: planImageFiles_def allImageDestinations_def tested_def)
qed

section \<open>Planning against existing output\<close>

lemma length_markdownDestinations: "length (markdownDestinations sh ps) = length ps"
proof (cases "config.polylang (config sh) \<and> length ps > 1")
  case True
  then have "ps \<noteq> []" by auto
  then obtain b where "chooseBaseSlug ps (defaultLanguage (config sh)) = Inr b"
    using chooseBaseSlug_nonempty by blast
  with True show ?thesis by (simp add: markdownDestinations_def)
next
  case False
  then show ?thesis by (auto simp: markdownDestinations_def)
qed

lemma length_concat_map: "length (concat (map f xs)) = sum_list (map (\<lambda>x. length (f x)) xs)"
  by (induction xs) auto

lemma length_imageDestinations:
  "length (imageDestinations sh ps) = length (concat (map imageUrls ps))"
proof (cases "config.polylang (config sh) \<and> length ps > 1")
  case True
  then have "ps \<noteq> []" by auto
  then obtain b where "chooseBaseSlug ps (defaultLanguage (config sh)) = Inr b"
    using chooseBaseSlug_nonempty by blast
  with True show ?thesis
    by (simp add: imageDestinations_def imageDestinationsIn_def length_concat_map o_def)
next
  case False
  then show ?thesis
    by (auto simp: imageDestinations_def imageDestinationsIn_def length_concat_map o_def)
qed

lemma length_allMarkdownDestinations:
  "length (allMarkdownDestinations sh groupMap) = length (concat (map snd (Object_entries groupMap)))"
  by (simp add: allMarkdownDestinations_def length_concat_map length_markdownDestinations o_def)

lemma length_allImageDestinations:
  "length (allImageDestinations sh groupMap)
     = length (concat (map imageUrls (concat (map snd (Object_entries groupMap)))))"
proof -
  have "length (concat (map imageUrls (concat xss)))
          = sum_list (map (\<lambda>xs. length (concat (map imageUrls xs))) xss)"
    for xss :: "post list list"
    by (induction xss) auto
  from this [of "map snd (Object_entries groupMap)"] show ?thesis
    by (simp add: allImageDestinations_def length_concat_map length_imageDestinations o_def)
qed

lemma filter_split_length:
  "length (filter (\<lambda>d. d \<in> files) ds) + length (filter (\<lambda>d. d \<notin> files) ds) = length ds"
  using sum_length_filter_compl [of "\<lambda>d. d \<in> files" ds] by simp


lemma second_run_empty:
  assumes "files \<subseteq> files'" "set (filter (\<lambda>d. d \<notin> files) dests) \<subseteq> files'"
  shows "filter (\<lambda>d. d \<notin> files') dests = []"
    "length (filter (\<lambda>d. d \<in> files') dests) = length dests"
proof -
  from assms have all: "\<forall>d \<in> set dests. d \<in> files'" by auto
  then show "filter (\<lambda>d. d \<notin> files') dests = []" by (simp add: filter_empty_conv)
  from all show "length (filter (\<lambda>d. d \<in> files') dests) = length dests"
    by simp
qed

text \<open>
  Claim C3. Both planning loops return a plan. The payloads of the plan are, in order,
  the tested destinations at which nothing exists, so no payload is made for a
  destination that exists, and the counter is the number of tested destinations at
  which something exists; counter and payloads together account for every post (every
  image URL of every post). When a second run finds everything the first run found and
  every destination the first run planned, its plan has no payload and counts every
  post (every image URL) as saved.
\<close>

theorem C3_planning_skips_existing_output:
  "(\<exists>st. planMarkdownFiles sh files groupMap = Inr st
        \<and> map destinationPath (payloads st)
            = filter (\<lambda>d. d \<notin> files) (allMarkdownDestinations sh groupMap)
        \<and> existingCount st
            = length (filter (\<lambda>d. d \<in> files) (allMarkdownDestinations sh groupMap))
        \<and> existingCount st + length (payloads st) = length (concat (map snd (Object_entries groupMap)))
        \<and> (\<forall>pl \<in> set (payloads st). \<not> existsSync files (destinationPath pl))
        \<and> (files \<subseteq> files' \<and> set (map destinationPath (payloads st)) \<subseteq> files' \<longrightarrow>
             (\<exists>st'. planMarkdownFiles sh files' groupMap = Inr st' \<and> payloads st' = []
                    \<and> existingCount st' = length (concat (map snd (Object_entries groupMap))))))
   \<and> (\<exists>st. planImageFiles sh files groupMap = Inr st
        \<and> map destinationPath (payloads st)
            = filter (\<lambda>d. d \<notin> files) (allImageDestinations sh groupMap)
        \<and> existingCount st
            = length (filter (\<lambda>d. d \<in> files) (allImageDestinations sh groupMap))
        \<and> existingCount st + length (payloads st) = length (concat (map imageUrls (concat (map snd (Object_entries groupMap)))))
        \<and> (\<forall>pl \<in> set (payloads st). \<not> existsSync files (destinationPath pl))
        \<and> (files \<subseteq> files' \<and> set (map destinationPath (payloads st)) \<subseteq> files' \<longrightarrow>
             (\<exists>st'. planImageFiles sh files' groupMap = Inr st' \<and> payloads st' = []
                    \<and> existingCount st' = length (concat (map imageUrls (concat (map snd (Object_entries groupMap))))))))"
proof (intro conjI)
  obtain st where st: "planMarkdownFiles sh files groupMap = Inr st"
    "map destinationPath (payloads st)
       = filter (\<lambda>d. d \<notin> files) (allMarkdownDestinations sh groupMap)"
    "existingCount st = length (filter (\<lambda>d. d \<in> files) (allMarkdownDestinations sh groupMap))"
    using planMarkdownFiles_tested [of sh files groupMap] by blast
  obtain st' where st': "planMarkdownFiles sh files' groupMap = Inr st'"
    "map destinationPath (payloads st')
       = filter (\<lambda>d. d \<notin> files') (allMarkdownDestinations sh groupMap)"
    "existingCount st' = length (filter (\<lambda>d. d \<in> files') (allMarkdownDestinations sh groupMap))"
    using planMarkdownFiles_tested [of sh files' groupMap] by blast
  from st(2) have "length (payloads st)
                     = length (filter (\<lambda>d. d \<notin> files) (allMarkdownDestinations sh groupMap))"
    by (metis length_map)
  with st(3) have total: "existingCount st + length (payloads st) = length (concat (map snd (Object_entries groupMap)))"
    using filter_split_length [of files "allMarkdownDestinations sh groupMap"]
    by (simp add: length_allMarkdownDestinations)
  have missing: "\<forall>pl \<in> set (payloads st). \<not> existsSync files (destinationPath pl)"
  proof
    fix pl
    assume "pl \<in> set (payloads st)"
    then have "destinationPath pl \<in> set (map destinationPath (payloads st))" by simp
    with st(2) show "\<not> existsSync files (destinationPath pl)"
      by (simp add: existsSync_def)
  qed
  have "payloads st' = [] \<and> existingCount st' = length (concat (map snd (Object_entries groupMap)))"
    if "files \<subseteq> files' \<and> set (map destinationPath (payloads st)) \<subseteq> files'"
    using that st(2) st'(2,3) second_run_empty [of files files' "allMarkdownDestinations sh groupMap"]
    by (simp add: length_allMarkdownDestinations)
  with st st'(1) total missing show "\<exists>st. planMarkdownFiles sh files groupMap = Inr st
        \<and> map destinationPath (payloads st)
            = filter (\<lambda>d. d \<notin> files) (allMarkdownDestinations sh groupMap)
        \<and> existingCount st
            = length (filter (\<lambda>d. d \<in> files) (allMarkdownDestinations sh groupMap))
        \<and> existingCount st + length (payloads st) = length (concat (map snd (Object_entries groupMap)))
        \<and> (\<forall>pl \<in> set (payloads st). \<not> existsSync files (destinationPath pl))
        \<and> (files \<subseteq> files' \<and> set (map destinationPath (payloads st)) \<subseteq> files' \<longrightarrow>
             (\<exists>st'. planMarkdownFiles sh files' groupMap = Inr st' \<and> payloads st' = []
                    \<and> existingCount st' = length (concat (map snd (Object_entries groupMap)))))"
    by blast
next
  obtain st where st: "planImageFiles sh files groupMap = Inr st"
    "map destinationPath (payloads st)
       = filter (\<lambda>d. d \<notin> files) (allImageDestinations sh groupMap)"
    "existingCount st = length (filter (\<lambda>d. d \<in> files) (allImageDestinations sh groupMap))"
    using planImageFiles_tested [of sh files groupMap] by blast
  obtain st' where st': "planImageFiles sh files' groupMap = Inr st'"
    "map destinationPath (payloads st')
       = filter (\<lambda>d. d \<notin> files') (allImageDestinations sh groupMap)"
    "existingCount st' = length (filter (\<lambda>d. d \<in> files') (allImageDestinations sh groupMap))"
    using planImageFiles_tested [of sh files' groupMap] by blast
  from st(2) have "length (payloads st)
                     = length (filter (\<lambda>d. d \<notin> files) (allImageDestinations sh groupMap))"
    by (metis length_map)
  with st(3) have total: "existingCount st + length (payloads st) = length (concat (map imageUrls (concat (map snd (Object_entries groupMap)))))"
    using filter_split_length [of files "allImageDestinations sh groupMap"]
    by (simp add: length_allImageDestinations)
  have missing: "\<forall>pl \<in> set (payloads st). \<not> existsSync files (destinationPath pl)"
  proof
    fix pl
    assume "pl \<in> set (payloads st)"
    then have "destinationPath pl \<in> set (map destinationPath (payloads st))" by simp
    with st(2) show "\<not> existsSync files (destinationPath pl)"
      by (simp add: existsSync_def)
  qed
  have "payloads st' = [] \<and> existingCount st' = length (concat (map imageUrls (concat (map snd (Object_entries groupMap)))))"
    if "files \<subseteq> files' \<and> set (map destinationPath (payloads st)) \<subseteq> files'"
    using that st(2) st'(2,3) second_run_empty [of files files' "allImageDestinations sh groupMap"]
    by (simp add: length_allImageDestinations)
  with st st'(1) total missing show "\<exists>st. planImageFiles sh files groupMap = Inr st
        \<and> map destinationPath (payloads st)
            = filter (\<lambda>d. d \<notin> files) (allImageDestinations sh groupMap)
        \<and> existingCount st
            = length (filter (\<lambda>d. d \<in> files) (allImageDestinations sh groupMap))
        \<and> existingCount st + length (payloads st) = length (concat (map imageUrls (concat (map snd (Object_entries groupMap)))))
        \<and> (\<forall>pl \<in> set (payloads st). \<not> existsSync files (destinationPath pl))
        \<and> (files \<subseteq> files' \<and> set (map destinationPath (payloads st)) \<subseteq> files' \<longrightarrow>
             (\<exists>st'. planImageFiles sh files' groupMap = Inr st' \<and> payloads st' = []
                    \<and> existingCount st' = length (concat (map imageUrls (concat (map snd (Object_entries groupMap)))))))"
    by blast
qed

lemmas path_defs = path_join_def path_normalize_def normalizeString_def path_dirname_def

lemmas plan_defs = planMarkdownFiles_def planMarkdownGroup_def planImageFiles_def
  planImageGroup_def planImages_def planItem_def existsSync_def translationDestination_def
  translationLanguage_def chooseBaseSlug_def plannedDestinations_def

lemmas spec_defs = spec_shared_def spec_buildPostPath_def spec_getFilenameFromUrl_def
  exampleConfig_def

lemma example_markdown_plan:
  "plannedDestinations
     (planMarkdownFiles (spec_shared exampleConfig) {}
        (buildGroupMap (spec_shared exampleConfig) [postFr, postEn]))
     = [''output/bonjour/index.fr.md'', ''output/bonjour/index.en.md'']"
  by (simp add: buildGroupMap_def example_defs group_defs path_defs plan_defs spec_defs Let_def)

theorem C3_witness:
  "plannedDestinations
     (planMarkdownFiles (spec_shared exampleConfig) {}
        (buildGroupMap (spec_shared exampleConfig) [postFr, postEn]))
     = [''output/bonjour/index.fr.md'', ''output/bonjour/index.en.md'']
   \<and> (\<exists>st'. planMarkdownFiles (spec_shared exampleConfig)
                {''output/bonjour/index.fr.md'', ''output/bonjour/index.en.md''}
                (buildGroupMap (spec_shared exampleConfig) [postFr, postEn]) = Inr st'
            \<and> payloads st' = [])"
proof -
  let ?sh = "spec_shared exampleConfig"
  let ?gm = "buildGroupMap ?sh [postFr, postEn]"
  let ?files' = "{''output/bonjour/index.fr.md'', ''output/bonjour/index.en.md''}"
  from C3_planning_skips_existing_output [of ?sh "{}" ?gm ?files']
  obtain st where st: "planMarkdownFiles ?sh {} ?gm = Inr st"
    and again: "{} \<subseteq> ?files' \<and> set (map destinationPath (payloads st)) \<subseteq> ?files' \<longrightarrow>
             (\<exists>st'. planMarkdownFiles ?sh ?files' ?gm = Inr st' \<and> payloads st' = []
                    \<and> existingCount st' = length (concat (map snd (Object_entries ?gm))))"
    by blast
  from st example_markdown_plan
  have "map destinationPath (payloads st)
          = [''output/bonjour/index.fr.md'', ''output/bonjour/index.en.md'']"
    by (simp add: plannedDestinations_def)
  with again have "\<exists>st'. planMarkdownFiles ?sh ?files' ?gm = Inr st' \<and> payloads st' = []"
    by auto
  with example_markdown_plan show ?thesis by blast
qed

section \<open>Payloads and destination paths\<close>

lemma count_list_filter:
  "count_list (filter P xs) d = (if P d then count_list xs d else 0)"
  by (induction xs) auto

lemma planned_markdown:
  "plannedDestinations (planMarkdownFiles sh files groupMap)
     = filter (\<lambda>d. d \<notin> files) (allMarkdownDestinations sh groupMap)"
  using planMarkdownFiles_tested [of sh files groupMap]
  by (auto simp: plannedDestinations_def)

lemma planned_images:
  "plannedDestinations (planImageFiles sh files groupMap)
     = filter (\<lambda>d. d \<notin> files) (allImageDestinations sh groupMap)"
  using planImageFiles_tested [of sh files groupMap]
  by (auto simp: plannedDestinations_def)

text \<open>
  Claim C2, as written, fails: the two members of a translation group that carry the
  same image URL give two payloads with the same destination path.
\<close>

theorem C2_counterexample:
  "plannedDestinations
     (planImageFiles (spec_shared exampleConfig) {}
        (buildGroupMap (spec_shared exampleConfig) [postFrImage, postEnImage]))
     = [''output/bonjour/images/a.png'', ''output/bonjour/images/a.png'']
   \<and> \<not> distinct
         (plannedDestinations
            (planImageFiles (spec_shared exampleConfig) {}
               (buildGroupMap (spec_shared exampleConfig) [postFrImage, postEnImage])))"
  by (simp add: buildGroupMap_def example_defs group_defs path_defs plan_defs spec_defs Let_def
        postFrImage_def postEnImage_def)

text \<open>
  Claim C2, amended. In each planning loop the number of payloads for a path at which
  nothing exists is the number of tested destinations equal to that path: one payload
  for each post, or for each image URL of each post, that resolves to it. So the
  payload paths of a loop are pairwise different when the destinations it tests are.
\<close>

theorem C2_one_payload_per_missing_destination:
  "(d \<notin> files \<longrightarrow>
      count_list (plannedDestinations (planMarkdownFiles sh files groupMap)) d
        = count_list (allMarkdownDestinations sh groupMap) d)
   \<and> (distinct (allMarkdownDestinations sh groupMap) \<longrightarrow>
        distinct (plannedDestinations (planMarkdownFiles sh files groupMap)))
   \<and> (d \<notin> files \<longrightarrow>
        count_list (plannedDestinations (planImageFiles sh files groupMap)) d
          = count_list (allImageDestinations sh groupMap) d)
   \<and> (distinct (allImageDestinations sh groupMap) \<longrightarrow>
        distinct (plannedDestinations (planImageFiles sh files groupMap)))"
  by (simp add: planned_markdown planned_images count_list_filter)

lemma example_markdown_destinations:
  "allMarkdownDestinations (spec_shared exampleConfig)
     (buildGroupMap (spec_shared exampleConfig) [postFr, postEn, postSolo])
     = [''output/solo/index.md'', ''output/bonjour/index.fr.md'', ''output/bonjour/index.en.md'']"
  by (simp add: allMarkdownDestinations_def markdownDestinations_def buildGroupMap_def
        example_defs group_defs path_defs plan_defs spec_defs Let_def)

theorem C2_witness:
  "distinct (plannedDestinations
     (planMarkdownFiles (spec_shared exampleConfig) {}
        (buildGroupMap (spec_shared exampleConfig) [postFr, postEn, postSolo])))"
  using C2_one_payload_per_missing_destination
    [of "''output/solo/index.md''" "{}" "spec_shared exampleConfig"
        "buildGroupMap (spec_shared exampleConfig) [postFr, postEn, postSolo]"]
  by (simp only: example_markdown_destinations) simp

section \<open>Destinations of translations\<close>

lemma dirname_index:
  assumes "d \<noteq> []" "d \<noteq> ''/''"
  shows "path_dirname (d @ ''/index.md'') = d"
proof -
  have "length d = 1 \<Longrightarrow> hd d \<noteq> CHR ''/''"
    using assms by (cases d) auto
  with assms show ?thesis
    by (auto simp: path_dirname_def Let_def)
qed

lemma translationLanguage_nonempty: "translationLanguage p \<noteq> []"
  by (simp add: translationLanguage_def split: option.splits)

lemma translationDestination_folders:
  assumes "postFolders cfg" "outputDir cfg \<noteq> []"
    "path_normalize (outputDir cfg @ ''/'' @ b @ ''/index.'' @ translationLanguage p @ ''.md'')
       = outputDir cfg @ ''/'' @ b @ ''/index.'' @ translationLanguage p @ ''.md''"
  shows "translationDestination (spec_shared cfg)
           (buildPostPath (spec_shared cfg) (q\<lparr>slug := b\<rparr>)) b p
         = outputDir cfg @ ''/'' @ b @ ''/index.'' @ translationLanguage p @ ''.md''"
proof -
  have d: "path_dirname ((outputDir cfg @ ''/'' @ b) @ ''/index.md'') = outputDir cfg @ ''/'' @ b"
    using assms(2) by (intro dirname_index) (auto simp: append_eq_Cons_conv)
  have "path_join [outputDir cfg @ ''/'' @ b, ''index.'' @ translationLanguage p @ ''.md'']
          = path_normalize ((outputDir cfg @ ''/'' @ b) @ ''/'' @ ''index.'' @ translationLanguage p @ ''.md'')"
    by (simp add: path_join_def)
  with assms(1,3) d show ?thesis
    by (simp add: translationDestination_def spec_shared_def spec_buildPostPath_def)
qed

lemma translationDestination_flat:
  assumes "\<not> postFolders cfg"
  shows "translationDestination (spec_shared cfg) basePath b p
         = outputDir cfg @ ''/'' @ b @ ''.'' @ translationLanguage p @ ''.md''"
  using assms by (simp add: translationDestination_def spec_shared_def spec_buildPostPath_def)


lemma planned_group:
  "plannedDestinations
     (planMarkdownGroup sh {} \<lparr>existingCount = 0, plan.delay = 0, payloads = []\<rparr> ps)
     = markdownDestinations sh ps"
  using planMarkdownGroup_tested
    [of sh "{}" "\<lparr>existingCount = 0, plan.delay = 0, payloads = []\<rparr>" ps]
  by (auto simp: plannedDestinations_def tested_def)

lemma markdownDestinations_group:
  assumes "config.polylang cfg" "length ps > 1"
    "chooseBaseSlug ps (defaultLanguage cfg) = Inr b"
  shows "markdownDestinations (spec_shared cfg) ps
         = map (translationDestination (spec_shared cfg)
                  (buildPostPath (spec_shared cfg) ((hd ps)\<lparr>slug := b\<rparr>)) b) ps"
  using assms by (simp add: markdownDestinations_def spec_shared_def)

lemma group_destinations_folders:
  assumes "config.polylang cfg" "length ps > 1"
    "chooseBaseSlug ps (defaultLanguage cfg) = Inr b"
    "postFolders cfg" "outputDir cfg \<noteq> []"
    "\<forall>q \<in> set ps.
       path_normalize (outputDir cfg @ ''/'' @ b @ ''/index.'' @ translationLanguage q @ ''.md'')
         = outputDir cfg @ ''/'' @ b @ ''/index.'' @ translationLanguage q @ ''.md''"
  shows "markdownDestinations (spec_shared cfg) ps
         = map (\<lambda>q. outputDir cfg @ ''/'' @ b @ ''/index.'' @ translationLanguage q @ ''.md'') ps"
  using assms
  by (simp add: markdownDestinations_group translationDestination_folders)

lemma group_destinations_flat:
  assumes "config.polylang cfg" "length ps > 1"
    "chooseBaseSlug ps (defaultLanguage cfg) = Inr b"
    "\<not> postFolders cfg"
  shows "markdownDestinations (spec_shared cfg) ps
         = map (\<lambda>q. outputDir cfg @ ''/'' @ b @ ''.'' @ translationLanguage q @ ''.md'') ps"
  using assms
  by (simp add: markdownDestinations_group translationDestination_flat)

text \<open>
  With \<^verbatim>\<open>buildPostPath\<close> as the spec gives it: the language of a member is its
  Polylang language, or \<open>und\<close> when that is unset (or empty). For a group of more
  than one post in Polylang mode for which \<^verbatim>\<open>chooseBaseSlug\<close> returns \<open>baseSlug\<close>,
  planning against an empty output tree gives each member, in order, the destination
  \<^verbatim>\<open>{output}/{baseSlug}/index.{lang}.md\<close> with per-post folders (for a non-empty output
  root and names that \<^verbatim>\<open>path.join\<close> leaves as they are) and
  \<^verbatim>\<open>{output}/{baseSlug}.{lang}.md\<close> without.
\<close>

lemma translation_group_destinations:
  "translationLanguage p
     = (case polylang_info.language (polylang p) of
          None \<Rightarrow> ''und'' | Some l \<Rightarrow> if l = [] then ''und'' else l)
   \<and> (config.polylang cfg \<and> length postsInGroup > 1
        \<and> chooseBaseSlug postsInGroup (defaultLanguage cfg) = Inr baseSlug
        \<and> postFolders cfg \<and> outputDir cfg \<noteq> []
        \<and> (\<forall>q \<in> set postsInGroup.
              path_normalize
                (outputDir cfg @ ''/'' @ baseSlug @ ''/index.'' @ translationLanguage q @ ''.md'')
              = outputDir cfg @ ''/'' @ baseSlug @ ''/index.'' @ translationLanguage q @ ''.md'')
      \<longrightarrow> plannedDestinations
            (planMarkdownGroup (spec_shared cfg) {}
               \<lparr>existingCount = 0, plan.delay = 0, payloads = []\<rparr> postsInGroup)
          = map (\<lambda>q. outputDir cfg @ ''/'' @ baseSlug @ ''/index.'' @ translationLanguage q @ ''.md'')
              postsInGroup)
   \<and> (config.polylang cfg \<and> length postsInGroup > 1
        \<and> chooseBaseSlug postsInGroup (defaultLanguage cfg) = Inr baseSlug
        \<and> \<not> postFolders cfg
      \<longrightarrow> plannedDestinations
            (planMarkdownGroup (spec_shared cfg) {}
               \<lparr>existingCount = 0, plan.delay = 0, payloads = []\<rparr> postsInGroup)
          = map (\<lambda>q. outputDir cfg @ ''/'' @ baseSlug @ ''.'' @ translationLanguage q @ ''.md'')
              postsInGroup)"
proof (intro conjI impI)
  show "translationLanguage p
     = (case polylang_info.language (polylang p) of
          None \<Rightarrow> ''und'' | Some l \<Rightarrow> if l = [] then ''und'' else l)"
    by (simp add: translationLanguage_def)
next
  assume "config.polylang cfg \<and> length postsInGroup > 1
        \<and> chooseBaseSlug postsInGroup (defaultLanguage cfg) = Inr baseSlug
        \<and> postFolders cfg \<and> outputDir cfg \<noteq> []
        \<and> (\<forall>q \<in> set postsInGroup.
              path_normalize
                (outputDir cfg @ ''/'' @ baseSlug @ ''/index.'' @ translationLanguage q @ ''.md'')
              = outputDir cfg @ ''/'' @ baseSlug @ ''/index.'' @ translationLanguage q @ ''.md'')"
  then show "plannedDestinations
            (planMarkdownGroup (spec_shared cfg) {}
               \<lparr>existingCount = 0, plan.delay = 0, payloads = []\<rparr> postsInGroup)
          = map (\<lambda>q. outputDir cfg @ ''/'' @ baseSlug @ ''/index.'' @ translationLanguage q @ ''.md'')
              postsInGroup"
    by (simp add: planned_group group_destinations_folders)
next
  assume "config.polylang cfg \<and> length postsInGroup > 1
        \<and> chooseBaseSlug postsInGroup (defaultLanguage cfg) = Inr baseSlug
        \<and> \<not> postFolders cfg"
  then show "plannedDestinations
            (planMarkdownGroup (spec_shared cfg) {}
               \<lparr>existingCount = 0, plan.delay = 0, payloads = []\<rparr> postsInGroup)
          = map (\<lambda>q. outputDir cfg @ ''/'' @ baseSlug @ ''.'' @ translationLanguage q @ ''.md'')
              postsInGroup"
    by (simp add: planned_group group_destinations_flat)
qed

lemma example_plan_english_first:
  "plannedDestinations
     (planMarkdownFiles (spec_shared exampleConfig) {}
        (buildGroupMap (spec_shared exampleConfig) [postEn, postFr]))
     = [''output/hello/index.en.md'', ''output/hello/index.fr.md'']"
  by (simp add: buildGroupMap_def example_defs group_defs path_defs plan_defs spec_defs Let_def)

text \<open>
  Claim C4 (not met by the code). The destinations of a translation group have the
  form that the claim gives, in the folder of the slug that \<^verbatim>\<open>chooseBaseSlug\<close>
  returns. In the scenario of the claim (post 1 English, post 2 French, translation map
  \<open>{en: "1", fr: "2"}\<close> on both, default language \<open>en\<close>, per-post folders) the group
  key is \<open>1,2\<close>, but the base slug is the slug of the member that comes first in the
  collection, whatever the default language: with the French post first, the base slug
  is \<open>bonjour\<close>, the slug of post 2, and the destinations are
  \<^verbatim>\<open>output/bonjour/index.fr.md\<close> and \<^verbatim>\<open>output/bonjour/index.en.md\<close>; only with the
  English post first are they in the folder of post 1's slug \<open>hello\<close>.
\<close>

theorem C4_base_slug_follows_collection_order:
  "post_id postEn = ''1'' \<and> slug postEn = ''hello''
   \<and> polylang_info.language (polylang postEn) = Some ''en''
   \<and> translationMap (polylang postEn) = Some [(''en'', ''1''), (''fr'', ''2'')]
   \<and> post_id postFr = ''2'' \<and> slug postFr = ''bonjour''
   \<and> polylang_info.language (polylang postFr) = Some ''fr''
   \<and> translationMap (polylang postFr) = Some [(''en'', ''1''), (''fr'', ''2'')]
   \<and> defaultLanguage exampleConfig = Some ''en'' \<and> postFolders exampleConfig
   \<and> buildGroupMap (spec_shared exampleConfig) [postFr, postEn] = [(''1,2'', [postFr, postEn])]
   \<and> chooseBaseSlug [postFr, postEn] (defaultLanguage exampleConfig) = Inr ''bonjour''
   \<and> plannedDestinations
        (planMarkdownFiles (spec_shared exampleConfig) {}
           (buildGroupMap (spec_shared exampleConfig) [postFr, postEn]))
      = [''output/bonjour/index.fr.md'', ''output/bonjour/index.en.md'']
   \<and> plannedDestinations
        (planMarkdownFiles (spec_shared exampleConfig) {}
           (buildGroupMap (spec_shared exampleConfig) [postEn, postFr]))
      = [''output/hello/index.en.md'', ''output/hello/index.fr.md'']"
proof -
  have facts: "post_id postEn = ''1'' \<and> slug postEn = ''hello''
     \<and> polylang_info.language (polylang postEn) = Some ''en''
     \<and> translationMap (polylang postEn) = Some [(''en'', ''1''), (''fr'', ''2'')]
     \<and> post_id postFr = ''2'' \<and> slug postFr = ''bonjour''
     \<and> polylang_info.language (polylang postFr) = Some ''fr''
     \<and> translationMap (polylang postFr) = Some [(''en'', ''1''), (''fr'', ''2'')]
     \<and> defaultLanguage exampleConfig = Some ''en'' \<and> postFolders exampleConfig"
    by (simp add: example_defs exampleConfig_def)
  have groups: "buildGroupMap (spec_shared exampleConfig) [postFr, postEn]
                  = [(''1,2'', [postFr, postEn])]"
    by (simp add: buildGroupMap_def spec_shared_def exampleConfig_def example_defs group_defs)
  have base: "chooseBaseSlug [postFr, postEn] (defaultLanguage exampleConfig) = Inr ''bonjour''"
    by (simp add: chooseBaseSlug_def example_defs)
  from facts groups base example_markdown_plan example_plan_english_first
  show ?thesis by blast
qed

end
